theory Spec2Isabelle
  imports Complex_Main
begin

section \<open>JavaScript values used by the lightbox script\<close>

text \<open>
  Numbers are modelled without rounding: a finite number is a rational, and the three
  non-finite values a division by zero can produce are separate constructors, so that
  \<open>x / 0\<close> is what JavaScript makes of it and not HOL's \<open>0\<close>.
\<close>

datatype js_num = Fin rat | PosInf | NegInf | NaN

text \<open>Division of two finite numbers (the only division the script performs).\<close>

definition js_div :: "rat \<Rightarrow> rat \<Rightarrow> js_num" where
  "js_div a b =
     (if b = 0 then (if a = 0 then NaN else if 0 < a then PosInf else NegInf)
      else Fin (a / b))"

fun Math_min :: "js_num \<Rightarrow> js_num \<Rightarrow> js_num" where
  "Math_min NaN _ = NaN"
| "Math_min _ NaN = NaN"
| "Math_min NegInf _ = NegInf"
| "Math_min _ NegInf = NegInf"
| "Math_min PosInf y = y"
| "Math_min x PosInf = x"
| "Math_min (Fin a) (Fin b) = Fin (min a b)"

fun Math_max :: "js_num \<Rightarrow> js_num \<Rightarrow> js_num" where
  "Math_max NaN _ = NaN"
| "Math_max _ NaN = NaN"
| "Math_max PosInf _ = PosInf"
| "Math_max _ PosInf = PosInf"
| "Math_max NegInf y = y"
| "Math_max x NegInf = x"
| "Math_max (Fin a) (Fin b) = Fin (max a b)"

text \<open>The product \<open>p * d\<close> of a number with a finite one.\<close>

fun js_mul :: "js_num \<Rightarrow> rat \<Rightarrow> js_num" where
  "js_mul (Fin a) d = Fin (a * d)"
| "js_mul NaN d = NaN"
| "js_mul PosInf d = (if d = 0 then NaN else if 0 < d then PosInf else NegInf)"
| "js_mul NegInf d = (if d = 0 then NaN else if 0 < d then NegInf else PosInf)"

subsection \<open>Decimal strings\<close>

definition digit_char :: "nat \<Rightarrow> char" where
  "digit_char d = ''0123456789'' ! (d mod 10)"

fun show_nat :: "nat \<Rightarrow> string" where
  "show_nat n = (if n < 10 then [digit_char n] else show_nat (n div 10) @ [digit_char (n mod 10)])"

declare show_nat.simps [simp del]

definition show_int :: "int \<Rightarrow> string" where
  "show_int i = (if i < 0 then CHR ''-'' # show_nat (nat (- i)) else show_nat (nat i))"

text \<open>The digits after the decimal point of a fraction \<open>0 \<le> r < 1\<close>, at most \<open>k\<close> of them.\<close>

fun frac_digits :: "nat \<Rightarrow> rat \<Rightarrow> string" where
  "frac_digits 0 r = []"
| "frac_digits (Suc k) r =
     (if r = 0 then []
      else digit_char (nat \<lfloor>r * 10\<rfloor>) # frac_digits k (r * 10 - of_int \<lfloor>r * 10\<rfloor>))"

text \<open>
  Number-to-string conversion as a template literal performs it, for the numbers that
  print in plain decimal notation (magnitudes below \<open>10\<^sup>2\<^sup>1\<close>): sign, integer part and,
  when there is a fractional part, a point and its digits.
\<close>

definition js_toString :: "rat \<Rightarrow> string" where
  "js_toString q =
     (let a = \<bar>q\<bar>; ip = \<lfloor>a\<rfloor>; fr = a - of_int ip
      in (if q < 0 then ''-'' else '''') @ show_nat (nat ip)
         @ (if fr = 0 then '''' else CHR ''.'' # frac_digits 20 fr))"

definition is_digit :: "char \<Rightarrow> bool" where
  "is_digit c = (c \<in> set ''0123456789'')"

definition digit_val :: "char \<Rightarrow> nat" where
  "digit_val c = of_char c - 48"

definition digits_val :: "string \<Rightarrow> nat" where
  "digits_val ds = foldl (\<lambda>acc c. 10 * acc + digit_val c) 0 ds"

definition is_space :: "char \<Rightarrow> bool" where
  "is_space c = (c = CHR '' '' \<or> c = CHR 0x09 \<or> c = CHR 0x0A \<or> c = CHR 0x0D)"

text \<open>
  \<open>parseInt(s, 10)\<close>: leading white space is skipped, one sign is read, then the longest
  run of decimal digits; whatever follows is ignored. No digit at all gives \<open>NaN\<close>
  (\<open>None\<close>).
\<close>

definition parseInt :: "string \<Rightarrow> int option" where
  "parseInt s =
     (let t = dropWhile is_space s;
          neg = (t \<noteq> [] \<and> hd t = CHR ''-'');
          u = (if t \<noteq> [] \<and> (hd t = CHR ''-'' \<or> hd t = CHR ''+'') then tl t else t);
          ds = takeWhile is_digit u
      in if ds = [] then None
         else Some (if neg then - int (digits_val ds) else int (digits_val ds)))"

text \<open>\<open>Math.abs\<close> on the result of \<open>parseInt\<close>; \<open>NaN\<close> stays \<open>NaN\<close>.\<close>

definition Math_abs :: "int option \<Rightarrow> int option" where
  "Math_abs v = map_option abs v"

text \<open>A value interpolated into a template literal; \<open>undefined\<close> prints as that word.\<close>

definition interpolate :: "string option \<Rightarrow> string" where
  "interpolate v = (case v of None \<Rightarrow> ''undefined'' | Some s \<Rightarrow> s)"

text \<open>\<open>String.prototype.padStart(2, '0')\<close>.\<close>

definition padStart2 :: "string \<Rightarrow> string" where
  "padStart2 s = replicate (2 - length s) CHR ''0'' @ s"

text \<open>
  The remainder operator on finite numbers: the result has the sign of the dividend
  (the quotient is truncated towards zero). A zero divisor gives \<open>NaN\<close>.
\<close>

definition js_trunc :: "rat \<Rightarrow> int" where
  "js_trunc q = (if 0 \<le> q then \<lfloor>q\<rfloor> else \<lceil>q\<rceil>)"

definition js_rem :: "rat \<Rightarrow> rat \<Rightarrow> js_num" where
  "js_rem a b = (if b = 0 then NaN else Fin (a - b * of_int (js_trunc (a / b))))"

text \<open>\<open>Math.floor\<close>, and the printing of its result inside a template literal.\<close>

fun Math_floor :: "js_num \<Rightarrow> js_num" where
  "Math_floor (Fin q) = Fin (of_int \<lfloor>q\<rfloor>)"
| "Math_floor v = v"

fun js_num_toString :: "js_num \<Rightarrow> string" where
  "js_num_toString (Fin q) = js_toString q"
| "js_num_toString PosInf = ''Infinity''"
| "js_num_toString NegInf = ''-Infinity''"
| "js_num_toString NaN = ''NaN''"

text \<open>\<open>formatTime(seconds)\<close>, lines 979-983.\<close>

definition formatTime :: "js_num \<Rightarrow> string" where
  "formatTime seconds =
     (let mins = Math_floor (case seconds of Fin q \<Rightarrow> js_div q 60 | v \<Rightarrow> v);
          secs = Math_floor (case seconds of Fin q \<Rightarrow> js_rem q 60 | PosInf \<Rightarrow> NaN
                             | NegInf \<Rightarrow> NaN | NaN \<Rightarrow> NaN)
      in js_num_toString mins @ '':'' @ padStart2 (js_num_toString secs))"


section \<open>State of the modal controller (class \<open>VimeoLightbox\<close>)\<close>

text \<open>A bounding rectangle as \<open>getBoundingClientRect\<close> returns it.\<close>

record dom_rect =
  rect_left :: rat
  rect_top :: rat
  rect_width :: rat
  rect_height :: rat

definition rect_right :: "dom_rect \<Rightarrow> rat" where
  "rect_right r = rect_left r + rect_width r"

definition rect_bottom :: "dom_rect \<Rightarrow> rat" where
  "rect_bottom r = rect_top r + rect_height r"

text \<open>The hover-time label: its text and the three inline styles the script writes.\<close>

record hover_label =
  hov_text :: string
  hov_left :: rat
  hov_opacity :: string
  hov_visibility :: string

text \<open>
  The timeline elements. The container and the hover label are \<open>None\<close> when the markup
  lacks them (the script tests both for null); track, progress bar and handle are
  dereferenced without a test and are taken to exist. The style strings
  \<open>`${percentage * 100}%`\<close> are kept as the number in front of the percent sign, and
  \<open>`${relativeX}px`\<close> as the number in front of \<open>px\<close>.
\<close>

record timeline_dom =
  timelineContainer :: "dom_rect option"
  timelineTrack :: dom_rect
  timelineProgress_width :: js_num
  timelineHandle_left :: js_num
  timelineHoverTime :: "hover_label option"
  body_cursor :: string

text \<open>The toast element \<open>.control-indicator\<close>: the \<open>active\<close> class and two inline styles.\<close>

record indicator =
  ind_active :: bool
  ind_opacity :: string
  ind_visibility :: string

text \<open>
  The frame of the modal: its address, its inline opacity, and the player the SDK has
  attached to this element (\<open>None\<close> while it has none).
\<close>

record iframe =
  src :: string
  frame_opacity :: string
  frame_player :: "nat option"

text \<open>
  The optional smooth-scroll plugin instance: which of its methods are functions, its
  scroll offset, whether it is paused, and whether calls on it throw.
\<close>

record smoother_obj =
  sm_scrollTop_fn :: bool
  sm_scrollTo_fn :: bool
  sm_position :: rat
  sm_paused :: bool
  sm_throws :: bool

text \<open>
  The page around the modal: the window's vertical scroll offset, the inline styles and
  classes of the root element and the body which the scroll lock writes, the plugin
  instance the detection expression finds (\<open>None\<close> when it finds nothing) and whether that
  expression throws.
\<close>

record page =
  scrollY :: rat
  html_top :: string
  html_position :: string
  html_width :: string
  html_scrollBehavior :: string
  html_lightbox_active :: bool
  body_lightbox_active :: bool
  body_overflow :: string
  scrollSmoother :: "smoother_obj option"
  detect_throws :: bool

record navigator =
  userAgent :: string
  vendor :: string
  opera :: "string option"
  nav_platform :: string
  maxTouchPoints :: nat

subsection \<open>The embedded player SDK\<close>

text \<open>
  A player handle is a number. The SDK keeps the handles constructed and not yet
  destroyed (\<open>live\<close>), a log of the method calls made on handles, and the handles whose
  \<open>ready()\<close> and \<open>getDuration()\<close> promises carry a continuation of the script and are not
  settled yet, one entry for each continuation. \<open>unhandled\<close> counts rejected promises
  nothing catches.

  The SDK keeps one player per frame element: \<open>new Vimeo.Player(element)\<close> on an element
  that has a player returns that player, and only an element without one gets a new
  handle. \<open>destroy()\<close> takes the player off its element and stops listening to the frame,
  so a promise of a destroyed player that is still pending never settles.
\<close>

datatype cmd =
  SetMuted bool | SetVolume rat | Play | Pause | SetCurrentTime js_num
  | Destroy | Ready | GetDuration | On string

datatype outcome = Resolves | Rejects | Throws

record sdk =
  live :: "nat list"
  nextHandle :: nat
  calls :: "(nat \<times> cmd) list"
  readyWaiting :: "nat list"
  durationWaiting :: "nat list"
  unhandled :: nat

text \<open>The callbacks the controller passes to \<open>setTimeout\<close>.\<close>

datatype callback = CbHideToast | CbShowLoader | CbShowControls | CbReinitThumbnails

text \<open>
  The fields of \<open>this\<close> (names as in the constructor, lines 106-127), the elements of the
  modal the methods touch, and the environment: page, navigator, pending timers
  (identifier, due time in milliseconds, callback) and the SDK. An element that may be
  missing is an option; \<open>this.smoother\<close> is a reference to the plugin instance of the
  page, so it is kept as the flag "non-null". Timer identifiers are positive, so a
  stored identifier is truthy.
\<close>

record lightbox =
  currentPlayer :: "nat option"
  isPlaying :: bool
  isMuted :: bool
  muteBtn :: "string option"
  videoDuration :: rat
  isDragging :: bool
  pauseTimeout :: "nat option"
  toastLockUntil :: int
  lightboxOpenedAt :: nat
  loadingTimeoutId :: "nat option"
  allowLoader :: bool
  savedScrollY :: rat
  prevScrollBehavior :: string
  smoother :: bool
  hadSmoother :: bool
  savedSmootherY :: rat
  lightbox_active :: bool
  videoTitle :: string
  videoFrame :: "iframe option"
  playBtn :: string
  currentTimeEl :: "string option"
  totalTimeEl :: "string option"
  loading :: "bool option"
  pauseIndicator :: "indicator option"
  pauseText :: "string option"
  errorPlaceholder :: "bool option"
  controls :: "string option"
  timeline :: timeline_dom
  page :: page
  nav :: navigator
  timers :: "(nat \<times> int \<times> callback) list"
  nextTimer :: nat
  sdk :: sdk

section \<open>Platform detection\<close>

definition starts_with :: "string \<Rightarrow> string \<Rightarrow> bool" where
  "starts_with pat s = (take (length pat) s = pat)"

text \<open>\<open>/pat/.test(s)\<close> for a literal pattern: the pattern occurs somewhere in \<open>s\<close>.\<close>

fun has_infix :: "string \<Rightarrow> string \<Rightarrow> bool" where
  "has_infix pat [] = (pat = [])"
| "has_infix pat (c # cs) = (starts_with pat (c # cs) \<or> has_infix pat cs)"

text \<open>\<open>/Chrome\/\d+/.test(s)\<close>: the word \<open>Chrome/\<close> followed by a digit.\<close>

fun chrome_version :: "string \<Rightarrow> bool" where
  "chrome_version [] = False"
| "chrome_version (c # cs) =
     ((starts_with ''Chrome/'' (c # cs)
        \<and> (case drop 7 (c # cs) of [] \<Rightarrow> False | d # _ \<Rightarrow> is_digit d))
      \<or> chrome_version cs)"

text \<open>\<open>isAutoplayRestricted()\<close>, lines 170-176.\<close>

definition isAutoplayRestricted :: "navigator \<Rightarrow> bool" where
  "isAutoplayRestricted n =
     (let ua = (if userAgent n \<noteq> [] then userAgent n
                else if vendor n \<noteq> [] then vendor n else interpolate (opera n));
          isIOS = (has_infix ''iPad'' ua \<or> has_infix ''iPhone'' ua \<or> has_infix ''iPod'' ua
                   \<or> (nav_platform n = ''MacIntel'' \<and> 1 < maxTouchPoints n));
          isAndroid = has_infix ''Android'' ua;
          isMobileChrome = (chrome_version ua \<and> has_infix ''Mobile'' ua)
      in isIOS \<or> isAndroid \<or> isMobileChrome)"

section \<open>Timers\<close>

text \<open>
  \<open>setTimeout(cb, delay)\<close> called at time \<open>now\<close>; the identifier it returns is
  \<open>nextTimer\<close> of the state before the call. A negative delay counts as zero.
\<close>

definition setTimeout :: "callback \<Rightarrow> int \<Rightarrow> nat \<Rightarrow> lightbox \<Rightarrow> lightbox" where
  "setTimeout cb delay now s =
     s\<lparr>timers := timers s @ [(nextTimer s, int now + max 0 delay, cb)],
       nextTimer := Suc (nextTimer s)\<rparr>"

definition clearTimeout :: "nat \<Rightarrow> lightbox \<Rightarrow> lightbox" where
  "clearTimeout tid s = s\<lparr>timers := filter (\<lambda>t. fst t \<noteq> tid) (timers s)\<rparr>"

section \<open>Small display methods\<close>

text \<open>\<open>hideControls()\<close> and \<open>showControls()\<close>, lines 1074-1084.\<close>

definition hideControls :: "lightbox \<Rightarrow> lightbox" where
  "hideControls s = s\<lparr>controls := map_option (\<lambda>_. ''none'') (controls s)\<rparr>"

definition showControls :: "lightbox \<Rightarrow> lightbox" where
  "showControls s = s\<lparr>controls := map_option (\<lambda>_. []) (controls s)\<rparr>"

text \<open>\<open>showLoading()\<close> and \<open>hideLoading()\<close>, lines 985-1004.\<close>

definition showLoading :: "nat \<Rightarrow> lightbox \<Rightarrow> lightbox" where
  "showLoading now s =
     (if loading s = None \<or> \<not> allowLoader s then s
      else if loadingTimeoutId s \<noteq> None then s
      else (setTimeout CbShowLoader 600 now s)\<lparr>loadingTimeoutId := Some (nextTimer s)\<rparr>)"

definition hideLoading :: "lightbox \<Rightarrow> lightbox" where
  "hideLoading s =
     (case loading s of
        None \<Rightarrow> s
      | Some _ \<Rightarrow>
          (let s1 = (case loadingTimeoutId s of
                       None \<Rightarrow> s
                     | Some t \<Rightarrow> (clearTimeout t s)\<lparr>loadingTimeoutId := None\<rparr>)
           in s1\<lparr>loading := Some False\<rparr>))"

text \<open>\<open>showError()\<close> and \<open>hideError()\<close>, lines 1059-1072.\<close>

definition showError :: "lightbox \<Rightarrow> lightbox" where
  "showError s =
     (let s1 = hideLoading s;
          s2 = s1\<lparr>errorPlaceholder := map_option (\<lambda>_. True) (errorPlaceholder s1)\<rparr>
      in hideControls s2)"

definition hideError :: "lightbox \<Rightarrow> lightbox" where
  "hideError s =
     showControls (s\<lparr>errorPlaceholder := map_option (\<lambda>_. False) (errorPlaceholder s)\<rparr>)"

text \<open>\<open>updateMuteButtonLabel()\<close>, lines 1111-1116.\<close>

definition updateMuteButtonLabel :: "lightbox \<Rightarrow> lightbox" where
  "updateMuteButtonLabel s =
     (case muteBtn s of
        None \<Rightarrow> s
      | Some _ \<Rightarrow> s\<lparr>muteBtn := Some (if isMuted s then ''Unmute'' else ''Mute'')\<rparr>)"

section \<open>The toast\<close>

text \<open>\<open>showCenterToast(message, durationMs)\<close>, lines 1022-1041, called at time \<open>now\<close>.\<close>

definition showCenterToast :: "string \<Rightarrow> int \<Rightarrow> nat \<Rightarrow> lightbox \<Rightarrow> lightbox" where
  "showCenterToast message durationMs now s =
     (case pauseIndicator s of
        None \<Rightarrow> s
      | Some ind \<Rightarrow>
          (let s1 = (case pauseTimeout s of
                       None \<Rightarrow> s
                     | Some t \<Rightarrow> (clearTimeout t s)\<lparr>pauseTimeout := None\<rparr>);
               s2 = s1\<lparr>pauseText := map_option (\<lambda>_. message) (pauseText s1)\<rparr>;
               s3 = s2\<lparr>pauseIndicator :=
                          Some (ind\<lparr>ind_active := True, ind_opacity := ''1'',
                                    ind_visibility := ''visible''\<rparr>),
                       toastLockUntil := int now + durationMs\<rparr>
           in (setTimeout CbHideToast durationMs now s3)\<lparr>pauseTimeout := Some (nextTimer s3)\<rparr>))"

text \<open>\<open>hideCenterToast()\<close>, lines 1043-1057, called at time \<open>now\<close>.\<close>

definition hideCenterToast :: "nat \<Rightarrow> lightbox \<Rightarrow> lightbox" where
  "hideCenterToast now s =
     (case pauseIndicator s of
        None \<Rightarrow> s
      | Some ind \<Rightarrow>
          if toastLockUntil s \<noteq> 0 \<and> int now < toastLockUntil s then s
          else
            (let s1 = (case pauseTimeout s of
                         None \<Rightarrow> s
                       | Some t \<Rightarrow> (clearTimeout t s)\<lparr>pauseTimeout := None\<rparr>)
             in s1\<lparr>pauseIndicator :=
                      Some (ind\<lparr>ind_active := False, ind_opacity := [],
                                ind_visibility := []\<rparr>),
                   toastLockUntil := 0\<rparr>))"

text \<open>\<open>showPauseIndicator()\<close> and \<open>hidePauseIndicator()\<close>, lines 1006-1020.\<close>

definition showPauseIndicator :: "nat \<Rightarrow> lightbox \<Rightarrow> lightbox" where
  "showPauseIndicator now s =
     (case pauseIndicator s of
        None \<Rightarrow> s
      | Some _ \<Rightarrow>
          (let s1 = (case pauseTimeout s of
                       None \<Rightarrow> s
                     | Some t \<Rightarrow> (clearTimeout t s)\<lparr>pauseTimeout := None\<rparr>)
           in showCenterToast ''Paused'' 1000 now s1))"

definition hidePauseIndicator :: "nat \<Rightarrow> lightbox \<Rightarrow> lightbox" where
  "hidePauseIndicator now s = hideCenterToast now s"

text \<open>Whether the toast is on screen: the element exists and carries the class.\<close>

definition toast_visible :: "lightbox \<Rightarrow> bool" where
  "toast_visible s = (case pauseIndicator s of None \<Rightarrow> False | Some ind \<Rightarrow> ind_active ind)"

section \<open>Timer callbacks\<close>

text \<open>
  The bodies of the arrow functions given to \<open>setTimeout\<close>: line 1039 (toast), lines
  990-993 (loader), line 887 (controls) and lines 799-803 (the preview tiles are
  rebuilt, which leaves the modal's state as it is).
\<close>

definition run_callback :: "callback \<Rightarrow> nat \<Rightarrow> lightbox \<Rightarrow> lightbox" where
  "run_callback cb now s =
     (case cb of
        CbHideToast \<Rightarrow> hideCenterToast now s
      | CbShowLoader \<Rightarrow>
          (let s1 = s\<lparr>loadingTimeoutId := None\<rparr>
           in if allowLoader s1 then s1\<lparr>loading := map_option (\<lambda>_. True) (loading s1)\<rparr>
              else s1)
      | CbShowControls \<Rightarrow> showControls s
      | CbReinitThumbnails \<Rightarrow> s)"

text \<open>
  The event loop runs timer \<open>tid\<close> at time \<open>now\<close>: only a pending timer whose due time
  has come runs, and it runs once.
\<close>

definition fire_timer :: "nat \<Rightarrow> nat \<Rightarrow> lightbox \<Rightarrow> lightbox" where
  "fire_timer now tid s =
     (case find (\<lambda>t. fst t = tid) (timers s) of
        None \<Rightarrow> s
      | Some (i, due, cb) \<Rightarrow>
          if due \<le> int now then run_callback cb now (clearTimeout tid s) else s)"

section \<open>The timeline\<close>

text \<open>\<open>updateTimelinePosition(percentage)\<close>, lines 430-434.\<close>

definition updateTimelinePosition :: "js_num \<Rightarrow> lightbox \<Rightarrow> lightbox" where
  "updateTimelinePosition percentage s =
     s\<lparr>timeline := (timeline s)\<lparr>timelineProgress_width := js_mul percentage 100,
                                timelineHandle_left := js_mul percentage 100\<rparr>\<rparr>"

text \<open>A method call on player handle \<open>h\<close>, appended to the SDK's log.\<close>

definition sdk_call :: "nat \<Rightarrow> cmd \<Rightarrow> lightbox \<Rightarrow> lightbox" where
  "sdk_call h c s = s\<lparr>sdk := (sdk s)\<lparr>calls := calls (sdk s) @ [(h, c)]\<rparr>\<rparr>"

text \<open>\<open>handleTimelineClick(e)\<close>, lines 356-366; \<open>clientX\<close> is \<open>e.clientX\<close>.\<close>

definition handleTimelineClick :: "rat \<Rightarrow> lightbox \<Rightarrow> lightbox" where
  "handleTimelineClick clientX s =
     (case currentPlayer s of
        None \<Rightarrow> s
      | Some h \<Rightarrow>
          if videoDuration s = 0 then s
          else
            (let rect = timelineTrack (timeline s);
                 clickX = clientX - rect_left rect;
                 percentage = Math_max (Fin 0) (Math_min (Fin 1) (js_div clickX (rect_width rect)));
                 seekTime = js_mul percentage (videoDuration s)
             in updateTimelinePosition percentage (sdk_call h (SetCurrentTime seekTime) s)))"

text \<open>
  \<open>handleTimelineHover(e)\<close>, lines 368-384. Writing the text of a missing label throws
  before anything has been changed, so that case leaves the state as it is.
\<close>

definition handleTimelineHover :: "rat \<Rightarrow> lightbox \<Rightarrow> lightbox" where
  "handleTimelineHover clientX s =
     (case timelineContainer (timeline s) of
        None \<Rightarrow> s
      | Some containerRect \<Rightarrow>
          if videoDuration s = 0 then s
          else
            (let rect = timelineTrack (timeline s);
                 hoverX = clientX - rect_left rect;
                 percentage = Math_max (Fin 0) (Math_min (Fin 1) (js_div hoverX (rect_width rect)));
                 hoverTime = js_mul percentage (videoDuration s);
                 relativeX = clientX - rect_left containerRect
             in case timelineHoverTime (timeline s) of
                  None \<Rightarrow> s
                | Some lbl \<Rightarrow>
                    s\<lparr>timeline := (timeline s)\<lparr>timelineHoverTime :=
                         Some (lbl\<lparr>hov_text := formatTime hoverTime, hov_left := relativeX,
                                   hov_opacity := ''1''\<rparr>)\<rparr>\<rparr>))"

text \<open>\<open>startDragging(e)\<close> and \<open>stopDragging()\<close>, lines 386-395 and 420-428.\<close>

definition startDragging :: "lightbox \<Rightarrow> lightbox" where
  "startDragging s =
     s\<lparr>isDragging := True,
       timeline := (timeline s)\<lparr>body_cursor := ''grabbing'',
          timelineHoverTime :=
            map_option (\<lambda>lbl. lbl\<lparr>hov_visibility := ''visible'', hov_opacity := ''1''\<rparr>)
              (timelineHoverTime (timeline s))\<rparr>\<rparr>"

definition stopDragging :: "lightbox \<Rightarrow> lightbox" where
  "stopDragging s =
     s\<lparr>isDragging := False,
       timeline := (timeline s)\<lparr>body_cursor := [],
          timelineHoverTime :=
            map_option (\<lambda>lbl. lbl\<lparr>hov_opacity := ''0'', hov_visibility := ''hidden''\<rparr>)
              (timelineHoverTime (timeline s))\<rparr>\<rparr>"

text \<open>\<open>handleTimelineDrag(e)\<close>, lines 397-418.\<close>

definition handleTimelineDrag :: "rat \<Rightarrow> lightbox \<Rightarrow> lightbox" where
  "handleTimelineDrag clientX s =
     (case currentPlayer s of
        None \<Rightarrow> s
      | Some h \<Rightarrow>
          if videoDuration s = 0 then s
          else
            (let rect = timelineTrack (timeline s);
                 dragX = clientX - rect_left rect;
                 percentage = Math_max (Fin 0) (Math_min (Fin 1) (js_div dragX (rect_width rect)));
                 seekTime = js_mul percentage (videoDuration s);
                 s1 = updateTimelinePosition percentage (sdk_call h (SetCurrentTime seekTime) s)
             in case (timelineHoverTime (timeline s1), timelineContainer (timeline s1)) of
                  (Some lbl, Some containerRect) \<Rightarrow>
                    s1\<lparr>timeline := (timeline s1)\<lparr>timelineHoverTime :=
                          Some (lbl\<lparr>hov_text := formatTime seekTime,
                                    hov_left := clientX - rect_left containerRect,
                                    hov_visibility := ''visible'', hov_opacity := ''1''\<rparr>)\<rparr>\<rparr>
                | _ \<Rightarrow> s1))"

text \<open>
  The mouse listeners which \<open>setupTimelineEvents()\<close> registers, lines 286-325: a click on
  the container, a mouse move over it, the mouse leaving it, a button press on the handle
  or the container, and a move or a release anywhere in the document.
\<close>

datatype timeline_event =
  ContainerClick rat | ContainerMouseMove rat | ContainerMouseLeave
  | MouseDown rat | DocumentMouseMove rat | DocumentMouseUp

definition on_timeline_event :: "timeline_event \<Rightarrow> lightbox \<Rightarrow> lightbox" where
  "on_timeline_event ev s =
     (case ev of
        ContainerClick x \<Rightarrow> if isDragging s then s else handleTimelineClick x s
      | ContainerMouseMove x \<Rightarrow> handleTimelineHover x s
      | ContainerMouseLeave \<Rightarrow>
          s\<lparr>timeline := (timeline s)\<lparr>timelineHoverTime :=
               map_option (\<lambda>lbl. lbl\<lparr>hov_opacity := ''0''\<rparr>) (timelineHoverTime (timeline s))\<rparr>\<rparr>
      | MouseDown x \<Rightarrow> handleTimelineDrag x (startDragging s)
      | DocumentMouseMove x \<Rightarrow> if isDragging s then handleTimelineDrag x s else s
      | DocumentMouseUp \<Rightarrow> if isDragging s then stopDragging s else s)"

text \<open>
  The fraction as the specification words it: \<open>clamp((pointerX - left) / width, 0, 1)\<close>,
  over the rationals. It is compared with the handlers' expression below.
\<close>

definition spec_positionToFraction :: "rat \<Rightarrow> dom_rect \<Rightarrow> rat" where
  "spec_positionToFraction pointerX trackRect =
     max 0 (min 1 ((pointerX - rect_left trackRect) / rect_width trackRect))"

section \<open>Scroll lock\<close>

text \<open>\<open>window.pageYOffset\<close> is an alias of \<open>window.scrollY\<close>.\<close>

definition pageYOffset :: "page \<Rightarrow> rat" where
  "pageYOffset p = scrollY p"

text \<open>
  \<open>window.scrollTo(0, y)\<close>: a \<open>NaN\<close> argument counts as zero, and the offset does not go
  below zero.
\<close>

definition window_scrollTo :: "rat option \<Rightarrow> page \<Rightarrow> page" where
  "window_scrollTo y p = p\<lparr>scrollY := (case y of None \<Rightarrow> 0 | Some v \<Rightarrow> max 0 v)\<rparr>"

text \<open>
  The native lock of \<open>openLightbox\<close>, lines 717-725 (the same statements are repeated in
  the \<open>catch\<close> block, lines 729-737).
\<close>

definition native_lock :: "lightbox \<Rightarrow> lightbox" where
  "native_lock s =
     (let p = page s;
          y = (if scrollY p \<noteq> 0 then scrollY p
               else if pageYOffset p \<noteq> 0 then pageYOffset p else 0);
          prev = html_scrollBehavior p
      in s\<lparr>savedScrollY := y,
           prevScrollBehavior := prev,
           page := p\<lparr>html_scrollBehavior := ''auto'',
                     html_top := ''-'' @ js_toString y @ ''px'',
                     html_position := ''fixed'',
                     html_width := ''100%'',
                     html_lightbox_active := True,
                     body_overflow := ''hidden'',
                     body_lightbox_active := True\<rparr>\<rparr>)"

text \<open>
  The lock of \<open>openLightbox\<close>, lines 692-738. Killing running scroll animations (lines
  701-710) changes nothing that is modelled.
\<close>

definition scroll_lock :: "lightbox \<Rightarrow> lightbox" where
  "scroll_lock s =
     (if detect_throws (page s) then native_lock s
      else
        case scrollSmoother (page s) of
          None \<Rightarrow> native_lock s
        | Some sm \<Rightarrow>
            (let y = (if sm_throws sm then 0
                      else if sm_scrollTop_fn sm then sm_position sm else 0);
                 sm1 = (if sm_throws sm then sm else sm\<lparr>sm_paused := True\<rparr>)
             in s\<lparr>smoother := True, hadSmoother := True, savedSmootherY := y,
                  page := (page s)\<lparr>scrollSmoother := Some sm1,
                                   html_lightbox_active := True,
                                   body_lightbox_active := True,
                                   body_overflow := ''hidden''\<rparr>\<rparr>))"

text \<open>The unlock of \<open>closeLightbox\<close>, lines 750-781.\<close>

definition scroll_unlock :: "lightbox \<Rightarrow> lightbox" where
  "scroll_unlock s =
     (if hadSmoother s \<and> smoother s then
        (let p = (page s)\<lparr>html_lightbox_active := False, body_lightbox_active := False,
                          body_overflow := []\<rparr>;
             p1 = (case scrollSmoother p of
                     None \<Rightarrow> p
                   | Some sm \<Rightarrow>
                       if sm_throws sm then p
                       else
                         (let sm1 = (if sm_scrollTo_fn sm then sm\<lparr>sm_position := savedSmootherY s\<rparr>
                                     else if sm_scrollTop_fn sm
                                          then sm\<lparr>sm_position := savedSmootherY s\<rparr>
                                     else sm)
                          in p\<lparr>scrollSmoother := Some (sm1\<lparr>sm_paused := False\<rparr>)\<rparr>))
         in s\<lparr>hadSmoother := False, smoother := False, page := p1\<rparr>)
      else
        (let p = page s;
             topStr = html_top p;
             p1 = p\<lparr>html_position := [], html_top := [], html_width := [],
                    html_lightbox_active := False, body_overflow := [],
                    body_lightbox_active := False\<rparr>;
             targetY = (if topStr \<noteq> [] then map_option of_int (Math_abs (parseInt topStr))
                        else Some (if savedScrollY s \<noteq> 0 then savedScrollY s else 0));
             p2 = window_scrollTo targetY (p1\<lparr>html_scrollBehavior := ''auto''\<rparr>)
         in s\<lparr>page := p2\<lparr>html_scrollBehavior := prevScrollBehavior s\<rparr>\<rparr>))"

section \<open>Loading a video\<close>

text \<open>The embed address of the modal, lines 836-839.\<close>

definition embedUrl :: "bool \<Rightarrow> string option \<Rightarrow> string" where
  "embedUrl restricted vimeoId =
     (if restricted
      then ''https://player.vimeo.com/video/'' @ interpolate vimeoId
           @ ''?background=1&autoplay=0&muted=0&controls=0&dnt=1&transparent=0&playsinline=1''
      else ''https://player.vimeo.com/video/'' @ interpolate vimeoId
           @ ''?autoplay=0&muted=0&controls=0&dnt=1&transparent=0&playsinline=1'')"

text \<open>
  Method calls issued one after the other inside one \<open>try\<close> block, each with its own
  \<open>.catch(() => {})\<close>: a rejected promise is swallowed and the next call is made; a
  call that throws ends the block. \<open>out k\<close> is what the \<open>k\<close>-th call does.
\<close>

fun issue_until_throw :: "(nat \<Rightarrow> outcome) \<Rightarrow> nat \<Rightarrow> nat \<Rightarrow> cmd list \<Rightarrow> lightbox \<Rightarrow> lightbox" where
  "issue_until_throw out k h [] s = s"
| "issue_until_throw out k h (c # cs) s =
     (if out k = Throws then sdk_call h c s
      else issue_until_throw out (Suc k) h cs (sdk_call h c s))"

text \<open>
  \<open>new Vimeo.Player(this.videoFrame)\<close>, line 846, for the frame \<open>f\<close>: the player the
  frame has, or else a handle not used before, which becomes live and is attached to the
  frame. The result is assigned to \<open>this.currentPlayer\<close>.
\<close>

definition new_Player :: "iframe \<Rightarrow> lightbox \<Rightarrow> nat \<times> lightbox" where
  "new_Player f s =
     (case frame_player f of
        Some h \<Rightarrow> (h, s\<lparr>currentPlayer := Some h\<rparr>)
      | None \<Rightarrow>
          (let h = nextHandle (sdk s)
           in (h, s\<lparr>currentPlayer := Some h,
                    videoFrame := Some (f\<lparr>frame_player := Some h\<rparr>),
                    sdk := (sdk s)\<lparr>live := live (sdk s) @ [h], nextHandle := Suc h\<rparr>\<rparr>)))"

text \<open>
  \<open>loadVideo(vimeoId, { shouldAutoplayDesktop })\<close>, lines 807-892, called at time \<open>now\<close>.
  The constructor of the player throws when \<open>ctor\<close> is \<open>Throws\<close>. The continuations of
  \<open>ready()\<close> are \<open>ready_resolved\<close> and \<open>ready_rejected\<close> below.
\<close>

definition loadVideo ::
  "string option \<Rightarrow> bool \<Rightarrow> outcome \<Rightarrow> (nat \<Rightarrow> outcome) \<Rightarrow> nat \<Rightarrow> lightbox \<Rightarrow> lightbox" where
  "loadVideo vimeoId shouldAutoplayDesktop ctor out now s =
     (let s1 = hideControls (hideError (showLoading now (s\<lparr>allowLoader := True\<rparr>)));
          s2 = s1\<lparr>videoFrame := map_option (\<lambda>f. f\<lparr>frame_opacity := ''1''\<rparr>) (videoFrame s1)\<rparr>
      in if vimeoId = Some ''INVALID_VIDEO_ID_FOR_TESTING'' then showError s2
         else
           case videoFrame s2 of
             None \<Rightarrow> showError s2
           | Some f \<Rightarrow>
               (let restricted = isAutoplayRestricted (nav s2);
                    f1 = f\<lparr>src := embedUrl restricted vimeoId\<rparr>;
                    s3 = s2\<lparr>videoFrame := Some f1\<rparr>
                in if ctor = Throws then showError s3
                   else
                     (let (h, s4) = new_Player f1 s3;
                          s5 = (if shouldAutoplayDesktop
                                then issue_until_throw out 0 h [SetMuted False, SetVolume 1, Play] s4
                                else s4);
                          s6 = sdk_call h Ready s5;
                          s7 = s6\<lparr>sdk := (sdk s6)\<lparr>readyWaiting := readyWaiting (sdk s6) @ [h]\<rparr>\<rparr>
                      in setTimeout CbShowControls 300 now s7)))"

text \<open>
  \<open>setupPlayerEvents()\<close>, lines 896-948: the four listeners are registered on the current
  handle and the duration is asked for. The listeners' bodies are \<open>on_play\<close>,
  \<open>on_pause\<close>, \<open>on_volumechange\<close> and \<open>on_timeupdate\<close>; the continuation of
  \<open>getDuration()\<close> is \<open>duration_resolved\<close>.
\<close>

definition setupPlayerEvents :: "lightbox \<Rightarrow> lightbox" where
  "setupPlayerEvents s =
     (case currentPlayer s of
        None \<Rightarrow> s
      | Some h \<Rightarrow>
          (let s1 = showControls s;
               s2 = fold (\<lambda>e. sdk_call h (On e))
                      [''play'', ''pause'', ''volumechange'', ''timeupdate''] s1;
               s3 = sdk_call h GetDuration s2
           in s3\<lparr>sdk := (sdk s3)\<lparr>durationWaiting := durationWaiting (sdk s3) @ [h]\<rparr>\<rparr>))"

text \<open>
  The \<open>ready()\<close> promise of handle \<open>h\<close> is fulfilled at time \<open>now\<close>: the \<open>then\<close> callback
  of lines 861-880 runs. It reads \<open>this.currentPlayer\<close> as it is at that moment.
\<close>

definition ready_resolved :: "nat \<Rightarrow> nat \<Rightarrow> lightbox \<Rightarrow> lightbox" where
  "ready_resolved h now s =
     (if h \<notin> set (readyWaiting (sdk s)) then s
      else
        (let s0 = s\<lparr>sdk := (sdk s)\<lparr>readyWaiting := remove1 h (readyWaiting (sdk s))\<rparr>\<rparr>;
             s1 = hideLoading (s0\<lparr>allowLoader := False\<rparr>);
             s2 = setupPlayerEvents s1;
             s3 = s2\<lparr>videoFrame := map_option (\<lambda>f. f\<lparr>frame_opacity := ''1''\<rparr>) (videoFrame s2)\<rparr>;
             s4 = (case currentPlayer s3 of
                     None \<Rightarrow> s3
                   | Some c \<Rightarrow> sdk_call c (SetVolume 1) s3)
         in if isAutoplayRestricted (nav s4) then showCenterToast ''Tap to unmute'' 1500 now s4
            else s4))"

text \<open>The \<open>ready()\<close> promise of handle \<open>h\<close> is rejected: the \<open>catch\<close> callback, lines 881-884.\<close>

definition ready_rejected :: "nat \<Rightarrow> lightbox \<Rightarrow> lightbox" where
  "ready_rejected h s =
     (if h \<notin> set (readyWaiting (sdk s)) then s
      else showError (s\<lparr>sdk := (sdk s)\<lparr>readyWaiting := remove1 h (readyWaiting (sdk s))\<rparr>\<rparr>))"

text \<open>\<open>getDuration()\<close> of handle \<open>h\<close> is fulfilled with \<open>duration\<close>, lines 939-943.\<close>

definition duration_resolved :: "nat \<Rightarrow> rat \<Rightarrow> lightbox \<Rightarrow> lightbox" where
  "duration_resolved h duration s =
     (if h \<notin> set (durationWaiting (sdk s)) then s
      else
        s\<lparr>sdk := (sdk s)\<lparr>durationWaiting := remove1 h (durationWaiting (sdk s))\<rparr>,
          videoDuration := duration,
          totalTimeEl := map_option (\<lambda>_. formatTime (Fin duration)) (totalTimeEl s)\<rparr>)"

text \<open>The event bridges, lines 902-937.\<close>

definition on_play :: "nat \<Rightarrow> lightbox \<Rightarrow> lightbox" where
  "on_play now s = hideLoading (hidePauseIndicator now (s\<lparr>isPlaying := True, playBtn := ''Pause''\<rparr>))"

definition on_pause :: "nat \<Rightarrow> lightbox \<Rightarrow> lightbox" where
  "on_pause now s = showPauseIndicator now (s\<lparr>isPlaying := False, playBtn := ''Play''\<rparr>)"

definition on_volumechange :: "rat option \<Rightarrow> lightbox \<Rightarrow> lightbox" where
  "on_volumechange volume s =
     (case volume of
        None \<Rightarrow> s
      | Some v \<Rightarrow> updateMuteButtonLabel (s\<lparr>isMuted := (v = 0)\<rparr>))"

definition on_timeupdate :: "rat \<Rightarrow> lightbox \<Rightarrow> lightbox" where
  "on_timeupdate seconds s =
     (let s1 = s\<lparr>currentTimeEl := map_option (\<lambda>_. formatTime (Fin seconds)) (currentTimeEl s)\<rparr>
      in if \<not> isDragging s1 \<and> 0 < videoDuration s1
         then updateTimelinePosition (js_div seconds (videoDuration s1)) s1
         else s1)"

section \<open>Opening and closing the modal\<close>

text \<open>The data attributes of a tile's \<open>.project-data\<close> container.\<close>

record tile_data =
  dataset_mainVideo :: "string option"
  dataset_thumbnailId :: "string option"
  dataset_title :: string

text \<open>
  \<open>openLightbox(thumbnail)\<close>, lines 671-744; \<open>projectData\<close> is \<open>None\<close> when the thumbnail
  has no \<open>.project-data\<close> ancestor.
\<close>

definition openLightbox ::
  "tile_data option \<Rightarrow> outcome \<Rightarrow> (nat \<Rightarrow> outcome) \<Rightarrow> nat \<Rightarrow> lightbox \<Rightarrow> lightbox" where
  "openLightbox projectData ctor out now s =
     (let vimeoId = (case projectData of None \<Rightarrow> None | Some d \<Rightarrow> dataset_mainVideo d);
          title = (case projectData of None \<Rightarrow> [] | Some d \<Rightarrow> dataset_title d);
          s1 = s\<lparr>videoTitle := title, lightboxOpenedAt := now, lightbox_active := True\<rparr>;
          s2 = scroll_lock s1;
          shouldAutoplayDesktop = (\<not> isAutoplayRestricted (nav s2))
      in loadVideo vimeoId shouldAutoplayDesktop ctor out now s2)"

text \<open>
  \<open>recreateIframe()\<close>, lines 482-522: the frame is replaced by a new element with an
  empty address, which has no player; the other references are looked up again and find
  the same elements.
\<close>

definition recreateIframe :: "lightbox \<Rightarrow> lightbox" where
  "recreateIframe s =
     s\<lparr>videoFrame := Some \<lparr>src = [], frame_opacity = ''1'', frame_player = None\<rparr>\<rparr>"

text \<open>\<open>resetControls()\<close>, lines 1086-1109.\<close>

definition resetControls :: "nat \<Rightarrow> lightbox \<Rightarrow> lightbox" where
  "resetControls now s =
     (let s1 = updateMuteButtonLabel (s\<lparr>playBtn := ''Play'', isMuted := True\<rparr>);
          s2 = s1\<lparr>currentTimeEl := map_option (\<lambda>_. ''0:00'') (currentTimeEl s1),
                  totalTimeEl := map_option (\<lambda>_. ''0:00'') (totalTimeEl s1),
                  isPlaying := False, videoDuration := 0, isDragging := False,
                  pauseTimeout := None\<rparr>
      in updateTimelinePosition (Fin 0) (showControls (hidePauseIndicator now s2)))"

text \<open>A rejected promise nobody handles.\<close>

definition unhandled_rejection :: "lightbox \<Rightarrow> lightbox" where
  "unhandled_rejection s = s\<lparr>sdk := (sdk s)\<lparr>unhandled := Suc (unhandled (sdk s))\<rparr>\<rparr>"

text \<open>
  What a call of \<open>destroy()\<close> on handle \<open>h\<close> that returns does inside the SDK: the handle
  is no longer live, the frame it was attached to has no player, and its pending
  \<open>ready()\<close> and \<open>getDuration()\<close> promises are dropped. The script attaches no handler to
  the promise \<open>destroy()\<close> returns, so a rejected one stays unhandled.
\<close>

definition player_destroyed :: "nat \<Rightarrow> outcome \<Rightarrow> lightbox \<Rightarrow> lightbox" where
  "player_destroyed h dout s =
     (let s1 = sdk_call h Destroy s;
          s2 = s1\<lparr>videoFrame :=
                    map_option (\<lambda>f. if frame_player f = Some h then f\<lparr>frame_player := None\<rparr> else f)
                      (videoFrame s1),
                  sdk := (sdk s1)\<lparr>live := removeAll h (live (sdk s1)),
                                 readyWaiting := removeAll h (readyWaiting (sdk s1)),
                                 durationWaiting := removeAll h (durationWaiting (sdk s1))\<rparr>\<rparr>
      in if dout = Rejects then unhandled_rejection s2 else s2)"

text \<open>
  \<open>closeLightbox()\<close>, lines 746-805, called at time \<open>now\<close>; \<open>dout\<close> is what
  \<open>this.currentPlayer.destroy()\<close> does. The call of line 786 is inside no \<open>try\<close>: when it
  throws, the exception leaves \<open>closeLightbox\<close>, so the handle is not set to null and
  the statements after it (new frame, reset of the controls, the timer) do not run. The
  scroll lock has been released by then.
\<close>

definition closeLightbox :: "outcome \<Rightarrow> nat \<Rightarrow> lightbox \<Rightarrow> lightbox" where
  "closeLightbox dout now s =
     (let s1 = scroll_unlock (s\<lparr>lightbox_active := False\<rparr>)
      in case currentPlayer s1 of
           Some h \<Rightarrow>
             if dout = Throws then sdk_call h Destroy s1
             else
               (let s2 = (player_destroyed h dout s1)\<lparr>currentPlayer := None\<rparr>;
                    s3 = hideLoading (hideError (resetControls now (recreateIframe s2)))
                in setTimeout CbReinitThumbnails 50 now s3)
         | None \<Rightarrow>
             (let s3 = hideLoading (hideError (resetControls now (recreateIframe s1)))
              in setTimeout CbReinitThumbnails 50 now s3))"

text \<open>
  \<open>destroy()\<close>, lines 178-185: the same two statements inside a \<open>try\<close>, which swallows
  an exception of the SDK's \<open>destroy()\<close>.
\<close>

definition destroy :: "outcome \<Rightarrow> lightbox \<Rightarrow> lightbox" where
  "destroy dout s =
     (case currentPlayer s of
        None \<Rightarrow> s
      | Some h \<Rightarrow>
          if dout = Throws then sdk_call h Destroy s
          else (player_destroyed h dout s)\<lparr>currentPlayer := None\<rparr>)"

section \<open>Play and pause\<close>

text \<open>
  One link of a promise chain of the form
  \<open>.then(() => { try { return this.currentPlayer.m(); } catch (_) {} })\<close>: the call is
  made; when its promise is rejected the chain is rejected and the remaining links are
  skipped; when the call throws, the \<open>try\<close> swallows it and the chain goes on. The result
  is whether the chain got rejected, the number of calls made so far, and the state.
\<close>

fun run_steps ::
  "(nat \<Rightarrow> outcome) \<Rightarrow> nat \<Rightarrow> nat \<Rightarrow> cmd list \<Rightarrow> lightbox \<Rightarrow> bool \<times> nat \<times> lightbox" where
  "run_steps out k h [] s = (False, k, s)"
| "run_steps out k h (c # cs) s =
     (if out k = Rejects then (True, Suc k, sdk_call h c s)
      else run_steps out (Suc k) h cs (sdk_call h c s))"

text \<open>
  \<open>togglePlayPause()\<close>, lines 950-977, with its promise chains run to their end; \<open>out k\<close>
  is what the \<open>k\<close>-th SDK call of this tap does, \<open>now\<close> the time.
\<close>

definition togglePlayPause :: "(nat \<Rightarrow> outcome) \<Rightarrow> nat \<Rightarrow> lightbox \<Rightarrow> lightbox" where
  "togglePlayPause out now s =
     (case currentPlayer s of
        None \<Rightarrow> s
      | Some h \<Rightarrow>
          if isPlaying s then
            (if isAutoplayRestricted (nav s) \<and> isMuted s then
               (case run_steps out 0 h [SetMuted False, SetVolume 1] s of
                  (rejected, k, s1) \<Rightarrow>
                    if rejected then s1
                    else hideCenterToast now (updateMuteButtonLabel (s1\<lparr>isMuted := False\<rparr>)))
             else
               (let s1 = sdk_call h Pause s
                in if out 0 = Rejects then unhandled_rejection s1 else s1))
          else
            (let restricted = isAutoplayRestricted (nav s)
             in if restricted \<and> isMuted s then
                  (case run_steps out 0 h [SetMuted False, SetVolume 1, Play] s of
                     (rejected, k, s1) \<Rightarrow>
                       if rejected then
                         (let s2 = sdk_call h Play s1
                          in if out k = Rejects then unhandled_rejection s2 else s2)
                       else hideCenterToast now (updateMuteButtonLabel (s1\<lparr>isMuted := False\<rparr>))
                  )
                else sdk_call h Play s))"

section \<open>The controller after construction\<close>

text \<open>
  The state the constructor leaves (lines 106-127) on a page whose modal has every
  element, with nothing scheduled yet and no player.
\<close>

definition constructed :: "page \<Rightarrow> navigator \<Rightarrow> lightbox" where
  "constructed p n =
     \<lparr>currentPlayer = None, isPlaying = False, isMuted = True, muteBtn = None,
      videoDuration = 0, isDragging = False, pauseTimeout = None, toastLockUntil = 0,
      lightboxOpenedAt = 0, loadingTimeoutId = None, allowLoader = False,
      savedScrollY = 0, prevScrollBehavior = [], smoother = False, hadSmoother = False,
      savedSmootherY = 0, lightbox_active = False, videoTitle = [],
      videoFrame = Some \<lparr>src = [], frame_opacity = [], frame_player = None\<rparr>,
      playBtn = ''Play'', currentTimeEl = Some ''0:00'', totalTimeEl = Some ''0:00'',
      loading = Some False,
      pauseIndicator = Some \<lparr>ind_active = False, ind_opacity = [], ind_visibility = []\<rparr>,
      pauseText = Some [], errorPlaceholder = Some False, controls = Some [],
      timeline = \<lparr>timelineContainer =
                    Some \<lparr>rect_left = 100, rect_top = 500, rect_width = 400, rect_height = 20\<rparr>,
                  timelineTrack =
                    \<lparr>rect_left = 100, rect_top = 508, rect_width = 400, rect_height = 4\<rparr>,
                  timelineProgress_width = Fin 0, timelineHandle_left = Fin 0,
                  timelineHoverTime =
                    Some \<lparr>hov_text = [], hov_left = 0, hov_opacity = ''0'',
                          hov_visibility = ''hidden''\<rparr>,
                  body_cursor = []\<rparr>,
      page = p, nav = n, timers = [], nextTimer = 1,
      sdk = \<lparr>live = [], nextHandle = 0, calls = [], readyWaiting = [], durationWaiting = [],
             unhandled = 0\<rparr>\<rparr>"

text \<open>A page scrolled to offset \<open>y\<close>, without the smooth-scroll plugin.\<close>

definition plain_page :: "rat \<Rightarrow> page" where
  "plain_page y =
     \<lparr>scrollY = y, html_top = [], html_position = [], html_width = [],
      html_scrollBehavior = [], html_lightbox_active = False, body_lightbox_active = False,
      body_overflow = [], scrollSmoother = None, detect_throws = False\<rparr>"

text \<open>The same page with a plugin instance at offset \<open>y\<close>.\<close>

definition smooth_page :: "rat \<Rightarrow> page" where
  "smooth_page y =
     (plain_page 0)\<lparr>scrollSmoother :=
        Some \<lparr>sm_scrollTop_fn = True, sm_scrollTo_fn = True, sm_position = y,
              sm_paused = False, sm_throws = False\<rparr>\<rparr>"

definition desktop_nav :: navigator where
  "desktop_nav =
     \<lparr>userAgent = ''Mozilla/5.0 (X11; Linux x86_64) Chrome/120.0 Safari/537.36'',
      vendor = ''Google Inc.'', opera = None, nav_platform = ''Linux x86_64'',
      maxTouchPoints = 0\<rparr>"

definition phone_nav :: navigator where
  "phone_nav =
     \<lparr>userAgent = ''Mozilla/5.0 (iPhone; CPU iPhone OS 17_0 like Mac OS X) Safari/604.1'',
      vendor = ''Apple Computer, Inc.'', opera = None, nav_platform = ''iPhone'',
      maxTouchPoints = 5\<rparr>"

section \<open>Preview tiles\<close>

text \<open>
  What \<open>isElementVisible\<close> reads: three computed style properties of the element (the
  opacity as \<open>parseFloat\<close> returns it) and the size of the viewport.
\<close>

record computed_style =
  css_display :: string
  css_visibility :: string
  css_opacity :: rat

record viewport =
  innerHeight :: rat
  innerWidth :: rat
  clientHeight :: rat
  clientWidth :: rat

text \<open>\<open>isElementVisible(element)\<close>, lines 36-45; \<open>None\<close> is a null element.\<close>

definition isElementVisible :: "viewport \<Rightarrow> (computed_style \<times> dom_rect) option \<Rightarrow> bool" where
  "isElementVisible vp element =
     (case element of
        None \<Rightarrow> False
      | Some (style, rect) \<Rightarrow>
          if css_display style = ''none'' \<or> css_visibility style = ''hidden''
             \<or> css_opacity style = 0
          then False
          else rect_width rect > 0 \<and> rect_height rect > 0
               \<and> rect_bottom rect \<ge> 0 \<and> rect_right rect \<ge> 0
               \<and> rect_top rect \<le> (if innerHeight vp \<noteq> 0 then innerHeight vp else clientHeight vp)
               \<and> rect_left rect \<le> (if innerWidth vp \<noteq> 0 then innerWidth vp else clientWidth vp))"

text \<open>
  A preview frame inside a tile: its address, its rendered size and the identifier of
  the failure timer armed when it was created.
\<close>

record preview =
  pv_src :: string
  pv_offsetWidth :: rat
  pv_offsetHeight :: rat
  pv_errorTimeout :: nat

record cover_img =
  cover_opacity :: string
  cover_visibility :: string

datatype tile_cb = ErrorTimeout | Settle nat

text \<open>
  A thumbnail element: its computed style and rectangle, the class \<open>video-failed\<close>,
  whether it holds an \<open>img\<close>, its preview frames in document order (each with an
  identifier), the cover image of the tile, the viewport, and the timers armed for it.
\<close>

record tile =
  th_style :: computed_style
  th_rect :: dom_rect
  video_failed :: bool
  has_img :: bool
  iframes :: "(nat \<times> preview) list"
  next_iframe :: nat
  cover :: "cover_img option"
  vp :: viewport
  tile_timers :: "(nat \<times> int \<times> tile_cb) list"
  tile_nextTimer :: nat

text \<open>The address of a preview embed, line 535.\<close>

definition previewUrl :: "string \<Rightarrow> string" where
  "previewUrl thumbnailId =
     ''https://player.vimeo.com/video/'' @ thumbnailId
     @ ''?background=1&autoplay=1&loop=1&muted=1&controls=0&title=0&byline=0&portrait=0&playsinline=1''"

text \<open>
  \<open>createLoopVideoIframe(thumbnail, thumbnailId)\<close>, lines 524-598, called at time \<open>now\<close>.
  The frame goes right behind the \<open>img\<close> when there is one, and to the end otherwise.
  The listeners it registers are \<open>iframe_error\<close> and \<open>iframe_load\<close>, the timer callbacks
  are in \<open>tile_callback\<close>.
\<close>

definition createLoopVideoIframe :: "string option \<Rightarrow> nat \<Rightarrow> tile \<Rightarrow> tile" where
  "createLoopVideoIframe thumbnailId now t =
     (case thumbnailId of
        None \<Rightarrow> t
      | Some tid \<Rightarrow>
          if tid = [] \<or> tid = ''INVALID_ID_FOR_TESTING'' \<or> tid = ''undefined'' then t
          else
            (let fr = \<lparr>pv_src = previewUrl tid, pv_offsetWidth = 0, pv_offsetHeight = 0,
                       pv_errorTimeout = tile_nextTimer t\<rparr>;
                 entry = (next_iframe t, fr)
             in t\<lparr>tile_timers := tile_timers t @ [(tile_nextTimer t, int now + 5000, ErrorTimeout)],
                  tile_nextTimer := Suc (tile_nextTimer t),
                  iframes := (if has_img t then entry # iframes t else iframes t @ [entry]),
                  next_iframe := Suc (next_iframe t)\<rparr>))"

text \<open>\<open>hideStaticImageOnMobile(thumbnail)\<close>, lines 600-625.\<close>

definition hideStaticImageOnMobile :: "tile \<Rightarrow> tile" where
  "hideStaticImageOnMobile t =
     (let isMobile = (innerWidth (vp t) \<le> 768)
      in if isMobile then
           (case (cover t, iframes t) of
              (Some c, (i, fr) # _) \<Rightarrow>
                if pv_offsetHeight fr > 0
                then t\<lparr>cover := Some (c\<lparr>cover_opacity := ''0'', cover_visibility := ''hidden''\<rparr>)\<rparr>
                else t
            | _ \<Rightarrow> t)
         else t\<lparr>cover := map_option (\<lambda>c. c\<lparr>cover_opacity := [], cover_visibility := []\<rparr>) (cover t)\<rparr>)"

text \<open>
  The two timer callbacks: the failure check of lines 561-567 and the check of lines
  575-586 that runs one second after the \<open>load\<close> event of frame \<open>i\<close>. A frame no longer
  in the tile has no rendered size.
\<close>

definition tile_callback :: "tile_cb \<Rightarrow> tile \<Rightarrow> tile" where
  "tile_callback cb t =
     (case cb of
        ErrorTimeout \<Rightarrow>
          if \<not> isElementVisible (vp t) (Some (th_style t, th_rect t)) then t
          else if \<not> video_failed t then t\<lparr>video_failed := True\<rparr> else t
      | Settle i \<Rightarrow>
          if \<not> isElementVisible (vp t) (Some (th_style t, th_rect t)) then t
          else
            (let h = (case map_of (iframes t) i of None \<Rightarrow> 0 | Some fr \<Rightarrow> pv_offsetHeight fr);
                 w = (case map_of (iframes t) i of None \<Rightarrow> 0 | Some fr \<Rightarrow> pv_offsetWidth fr)
             in if h = 0 \<or> w = 0 then t\<lparr>video_failed := True\<rparr>
                else hideStaticImageOnMobile t))"

text \<open>The event loop runs timer \<open>tid\<close> of the tile at time \<open>now\<close>.\<close>

definition tile_fire :: "nat \<Rightarrow> nat \<Rightarrow> tile \<Rightarrow> tile" where
  "tile_fire now tid t =
     (case find (\<lambda>e. fst e = tid) (tile_timers t) of
        None \<Rightarrow> t
      | Some (i, due, cb) \<Rightarrow>
          if due \<le> int now
          then tile_callback cb (t\<lparr>tile_timers := filter (\<lambda>e. fst e \<noteq> tid) (tile_timers t)\<rparr>)
          else t)"

text \<open>The \<open>error\<close> listener of a preview frame, lines 555-558.\<close>

definition iframe_error :: "tile \<Rightarrow> tile" where
  "iframe_error t = t\<lparr>video_failed := True\<rparr>"

text \<open>The \<open>load\<close> listener of preview frame \<open>i\<close>, lines 570-587, run at time \<open>now\<close>.\<close>

definition iframe_load :: "nat \<Rightarrow> nat \<Rightarrow> tile \<Rightarrow> tile" where
  "iframe_load i now t =
     (case map_of (iframes t) i of
        None \<Rightarrow> t
      | Some fr \<Rightarrow>
          t\<lparr>tile_timers :=
               filter (\<lambda>e. fst e \<noteq> pv_errorTimeout fr) (tile_timers t)
               @ [(tile_nextTimer t, int now + 1000, Settle i)],
            tile_nextTimer := Suc (tile_nextTimer t)\<rparr>)"

text \<open>
  What can happen to a tile after its preview was created: a timer of the tile runs, a
  frame fires \<open>load\<close>, the layout changes (style and rectangle of the thumbnail, the
  viewport), or a frame gets a rendered size.
\<close>

datatype tile_event =
  TimerFires nat nat | FrameLoads nat nat | Layout computed_style dom_rect viewport
  | FrameSized nat rat rat

fun tile_step :: "tile_event \<Rightarrow> tile \<Rightarrow> tile" where
  "tile_step (TimerFires now tid) t = tile_fire now tid t"
| "tile_step (FrameLoads i now) t = iframe_load i now t"
| "tile_step (Layout st r v) t = t\<lparr>th_style := st, th_rect := r, vp := v\<rparr>"
| "tile_step (FrameSized i w h) t =
     t\<lparr>iframes := map (\<lambda>(j, fr). if j = i then (j, fr\<lparr>pv_offsetWidth := w, pv_offsetHeight := h\<rparr>)
                                 else (j, fr)) (iframes t)\<rparr>"

definition tile_run :: "tile_event list \<Rightarrow> tile \<Rightarrow> tile" where
  "tile_run evs t = fold tile_step evs t"

text \<open>The tile stays out of sight through a list of events.\<close>

fun stays_hidden :: "tile_event list \<Rightarrow> bool" where
  "stays_hidden [] = True"
| "stays_hidden (Layout st r v # evs) = (\<not> isElementVisible v (Some (st, r)) \<and> stays_hidden evs)"
| "stays_hidden (_ # evs) = stays_hidden evs"

text \<open>Frame \<open>i\<close> does not fire \<open>load\<close> in a list of events.\<close>

fun never_loads :: "nat \<Rightarrow> tile_event list \<Rightarrow> bool" where
  "never_loads i [] = True"
| "never_loads i (FrameLoads j now # evs) = (j \<noteq> i \<and> never_loads i evs)"
| "never_loads i (_ # evs) = never_loads i evs"

text \<open>No event of the list happens at or after time \<open>limit\<close>.\<close>

fun all_before :: "nat \<Rightarrow> tile_event list \<Rightarrow> bool" where
  "all_before limit [] = True"
| "all_before limit (TimerFires now tid # evs) = (now < limit \<and> all_before limit evs)"
| "all_before limit (FrameLoads i now # evs) = (now < limit \<and> all_before limit evs)"
| "all_before limit (_ # evs) = all_before limit evs"

text \<open>A tile on screen and one with \<open>display: none\<close>, both without frames and timers.\<close>

definition shown_tile :: tile where
  "shown_tile =
     \<lparr>th_style = \<lparr>css_display = ''block'', css_visibility = ''visible'', css_opacity = 1\<rparr>,
      th_rect = \<lparr>rect_left = 20, rect_top = 300, rect_width = 320, rect_height = 180\<rparr>,
      video_failed = False, has_img = True, iframes = [], next_iframe = 0,
      cover = Some \<lparr>cover_opacity = [], cover_visibility = []\<rparr>,
      vp = \<lparr>innerHeight = 800, innerWidth = 1280, clientHeight = 800, clientWidth = 1280\<rparr>,
      tile_timers = [], tile_nextTimer = 1\<rparr>"

definition hidden_tile :: tile where
  "hidden_tile =
     shown_tile\<lparr>th_style := \<lparr>css_display = ''none'', css_visibility = ''visible'', css_opacity = 1\<rparr>,
                th_rect := \<lparr>rect_left = 0, rect_top = 0, rect_width = 0, rect_height = 0\<rparr>\<rparr>"

section \<open>Start-up\<close>

text \<open>
  What the start-up code looks for in the page: the SDK's global, the modal, and the
  numbers of thumbnails and tiles that match the selectors.
\<close>

record markup =
  vimeo_defined :: bool
  lightbox_exists :: bool
  thumbnails_n :: nat
  tiles_n :: nat

datatype boot_cb = CbInitLightbox | CbTryInitLightbox | CbDisconnect nat

text \<open>
  The module state: the two attempt counters (lines 7 and 1125), the pending timers (due
  time and callback), the mutation observers still connected, the number of controllers
  constructed (line 1120) and the messages given to \<open>console.error\<close>.
\<close>

record boot =
  vimeoApiAttempts :: nat
  initAttempts :: nat
  boot_timers :: "(int \<times> boot_cb) list"
  observers :: "nat list"
  next_observer :: nat
  instances :: nat
  console_errors :: "string list"

text \<open>
  \<open>initLightbox()\<close>, lines 13-33 and 1119-1122, run at time \<open>now\<close> on the page \<open>m\<close>. The
  function and class declarations in between (lines 36-1117) run nothing.
\<close>

definition initLightbox :: "markup \<Rightarrow> int \<Rightarrow> boot \<Rightarrow> boot" where
  "initLightbox m now b =
     (if \<not> vimeo_defined m then
        (if vimeoApiAttempts b < 20
         then b\<lparr>vimeoApiAttempts := Suc (vimeoApiAttempts b),
                boot_timers := boot_timers b @ [(now + 100, CbInitLightbox)]\<rparr>
         else b\<lparr>console_errors := console_errors b @ [''Vimeo API failed to load'']\<rparr>)
      else if \<not> lightbox_exists m
      then b\<lparr>boot_timers := boot_timers b @ [(now + 100, CbInitLightbox)]\<rparr>
      else b\<lparr>instances := Suc (instances b)\<rparr>)"

text \<open>
  \<open>observeDOMForLightbox()\<close>, lines 48-60: a declaration local to \<open>initLightbox\<close>. This
  is what a call of it would do; no statement of the script calls it.
\<close>

definition observeDOMForLightbox :: "int \<Rightarrow> boot \<Rightarrow> boot" where
  "observeDOMForLightbox now b =
     b\<lparr>observers := observers b @ [next_observer b],
       next_observer := Suc (next_observer b),
       boot_timers := boot_timers b @ [(now + 10000, CbDisconnect (next_observer b))]\<rparr>"

text \<open>The callback of observer \<open>i\<close>, lines 49-57, for a mutation at time \<open>now\<close>.\<close>

definition observer_callback :: "nat \<Rightarrow> markup \<Rightarrow> int \<Rightarrow> boot \<Rightarrow> boot" where
  "observer_callback i m now b =
     (if lightbox_exists m \<and> (thumbnails_n m > 0 \<or> tiles_n m > 0)
      then initLightbox m now (b\<lparr>observers := removeAll i (observers b)\<rparr>)
      else b)"

text \<open>A mutation of the document is delivered to every connected observer.\<close>

definition document_mutated :: "markup \<Rightarrow> int \<Rightarrow> boot \<Rightarrow> boot" where
  "document_mutated m now b = fold (\<lambda>i. observer_callback i m now) (observers b) b"

text \<open>\<open>tryInitLightbox()\<close>, lines 1128-1150.\<close>

definition tryInitLightbox :: "markup \<Rightarrow> int \<Rightarrow> boot \<Rightarrow> boot" where
  "tryInitLightbox m now b =
     (let b1 = b\<lparr>initAttempts := Suc (initAttempts b)\<rparr>
      in if lightbox_exists m \<and> (thumbnails_n m > 0 \<or> tiles_n m > 0)
         then initLightbox m now b1
         else if initAttempts b1 < 10
         then b1\<lparr>boot_timers := boot_timers b1 @ [(now + 500, CbTryInitLightbox)]\<rparr>
         else b1\<lparr>console_errors :=
                   console_errors b1 @ [''Failed to initialize lightbox. Check HTML structure.'']\<rparr>)"

definition boot_callback :: "boot_cb \<Rightarrow> markup \<Rightarrow> int \<Rightarrow> boot \<Rightarrow> boot" where
  "boot_callback cb m now b =
     (case cb of
        CbInitLightbox \<Rightarrow> initLightbox m now b
      | CbTryInitLightbox \<Rightarrow> tryInitLightbox m now b
      | CbDisconnect i \<Rightarrow> b\<lparr>observers := removeAll i (observers b)\<rparr>)"

text \<open>The pending timer that is due first.\<close>

fun earliest :: "(int \<times> boot_cb) list \<Rightarrow> (int \<times> boot_cb) option" where
  "earliest [] = None"
| "earliest (t # ts) =
     (case earliest ts of
        None \<Rightarrow> Some t
      | Some u \<Rightarrow> if fst t \<le> fst u then Some t else Some u)"

text \<open>
  The event loop with nothing but timers to run, on a page whose markup at time \<open>t\<close> is
  \<open>markup_at t\<close>: each timer runs when it is due, at most \<open>fuel\<close> of them.
\<close>

fun run_boot :: "nat \<Rightarrow> (int \<Rightarrow> markup) \<Rightarrow> boot \<Rightarrow> boot" where
  "run_boot 0 markup_at b = b"
| "run_boot (Suc n) markup_at b =
     (case earliest (boot_timers b) of
        None \<Rightarrow> b
      | Some (due, cb) \<Rightarrow>
          run_boot n markup_at
            (boot_callback cb (markup_at due) due (b\<lparr>boot_timers := remove1 (due, cb) (boot_timers b)\<rparr>)))"

text \<open>The module state when the script is loaded, lines 7 and 1125.\<close>

definition boot0 :: boot where
  "boot0 =
     \<lparr>vimeoApiAttempts = 0, initAttempts = 0, boot_timers = [], observers = [],
      next_observer = 0, instances = 0, console_errors = []\<rparr>"

text \<open>
  A page on which the SDK is loaded from the start, while the modal and two tiles are
  inserted by a script six seconds after the page was loaded.
\<close>

definition late_markup :: "int \<Rightarrow> markup" where
  "late_markup t =
     (if t < 6000
      then \<lparr>vimeo_defined = True, lightbox_exists = False, thumbnails_n = 0, tiles_n = 0\<rparr>
      else \<lparr>vimeo_defined = True, lightbox_exists = True, thumbnails_n = 2, tiles_n = 2\<rparr>)"

section \<open>Reading a query string\<close>

text \<open>The query of an address: what follows its first question mark.\<close>

definition url_query :: "string \<Rightarrow> string" where
  "url_query u = tl (dropWhile (\<lambda>c. c \<noteq> CHR ''?'') u)"

section \<open>Sessions\<close>

text \<open>
  Everything that can run a handler of the controller: a click on a tile
  (\<open>openLightbox\<close>, which ends in \<open>loadVideo\<close>), a call of \<open>loadVideo\<close> by itself (the
  script has none; it is here so that every sequence of calls of the three methods is a
  session), any of the ways to close (\<open>closeLightbox\<close>), the settling of the promises
  of \<open>ready()\<close> and \<open>getDuration()\<close>, the four player events, a tap on the play button or
  the video, a pointer event on the timeline, and a timer that runs. An event carries
  what the environment does during it: whether the SDK's constructor or \<open>destroy()\<close>
  throws, what the SDK calls do, the time.
  \<open>destroy()\<close> of the controller is called by no statement of the script, and the
  instance is bound to no name, so it is not among the events.
\<close>

datatype session_event =
  Open "tile_data option" outcome "nat \<Rightarrow> outcome" nat
  | Load "string option" bool outcome "nat \<Rightarrow> outcome" nat
  | Close outcome nat
  | ReadyResolves nat nat
  | ReadyRejects nat
  | DurationResolves nat rat
  | Plays nat
  | Pauses nat
  | VolumeChanges "rat option"
  | TimeUpdates rat
  | Tap "nat \<Rightarrow> outcome" nat
  | Pointer timeline_event
  | TimerRuns nat nat

fun session_step :: "session_event \<Rightarrow> lightbox \<Rightarrow> lightbox" where
  "session_step (Open d ctor out now) s = openLightbox d ctor out now s"
| "session_step (Load v a ctor out now) s = loadVideo v a ctor out now s"
| "session_step (Close dout now) s = closeLightbox dout now s"
| "session_step (ReadyResolves h now) s = ready_resolved h now s"
| "session_step (ReadyRejects h) s = ready_rejected h s"
| "session_step (DurationResolves h d) s = duration_resolved h d s"
| "session_step (Plays now) s = on_play now s"
| "session_step (Pauses now) s = on_pause now s"
| "session_step (VolumeChanges v) s = on_volumechange v s"
| "session_step (TimeUpdates t) s = on_timeupdate t s"
| "session_step (Tap out now) s = togglePlayPause out now s"
| "session_step (Pointer e) s = on_timeline_event e s"
| "session_step (TimerRuns now tid) s = fire_timer now tid s"

definition session_run :: "session_event list \<Rightarrow> lightbox \<Rightarrow> lightbox" where
  "session_run evs s = fold session_step evs s"

text \<open>An environment in which every SDK call does the same thing.\<close>

definition always :: "outcome \<Rightarrow> nat \<Rightarrow> outcome" where
  "always oc k = oc"

text \<open>The player attached to the frame of the modal.\<close>

definition frame_handle :: "lightbox \<Rightarrow> nat option" where
  "frame_handle s = (case videoFrame s of None \<Rightarrow> None | Some f \<Rightarrow> frame_player f)"

text \<open>
  The live handles are exactly the one \<open>this.currentPlayer\<close> holds, and it is the player
  of the modal's frame.
\<close>

definition handles_tidy :: "lightbox \<Rightarrow> bool" where
  "handles_tidy s =
     (live (sdk s) = (case currentPlayer s of None \<Rightarrow> [] | Some h \<Rightarrow> [h])
      \<and> frame_handle s = currentPlayer s)"

text \<open>
  In addition, only the current player has a duration query pending, and without a
  player the cached duration is 0.
\<close>

definition session_tidy :: "lightbox \<Rightarrow> bool" where
  "session_tidy s =
     (handles_tidy s
      \<and> (\<forall>h\<in>set (durationWaiting (sdk s)). currentPlayer s = Some h)
      \<and> (currentPlayer s = None \<longrightarrow> videoDuration s = 0))"

text \<open>
  The start of the controller's lifetime, whatever its page and elements: the constructor
  has set \<open>currentPlayer\<close> to null and \<open>videoDuration\<close> to 0 (lines 106-127), and the SDK
  has made no player yet.
\<close>

definition at_start :: "lightbox \<Rightarrow> bool" where
  "at_start s =
     (currentPlayer s = None \<and> live (sdk s) = [] \<and> frame_handle s = None
      \<and> durationWaiting (sdk s) = [] \<and> videoDuration s = 0)"

text \<open>What the two invariants read.\<close>

definition handle_view :: "lightbox \<Rightarrow> nat option \<times> nat option \<times> nat list \<times> nat" where
  "handle_view s = (currentPlayer s, frame_handle s, live (sdk s), nextHandle (sdk s))"

definition duration_view :: "lightbox \<Rightarrow> nat list \<times> rat" where
  "duration_view s = (durationWaiting (sdk s), videoDuration s)"

text \<open>
  Whether a call of \<open>loadVideo\<close> reaches the construction of a player and the
  construction succeeds.
\<close>

definition constructs :: "string option \<Rightarrow> outcome \<Rightarrow> lightbox \<Rightarrow> bool" where
  "constructs vimeoId ctor s =
     (vimeoId \<noteq> Some ''INVALID_VIDEO_ID_FOR_TESTING'' \<and> videoFrame s \<noteq> None \<and> ctor \<noteq> Throws)"

text \<open>The tile of the specification's scenario.\<close>

definition demo_tile :: tile_data where
  "demo_tile =
     \<lparr>dataset_mainVideo = Some ''123'', dataset_thumbnailId = Some ''456'',
      dataset_title = ''Demo''\<rparr>"

text \<open>
  A session in full swing: the demo tile was clicked at time 1000 on a page scrolled to
  \<open>y\<close>, the player became ready at 1200 and reported a duration of two minutes.
\<close>

definition opened :: "rat \<Rightarrow> navigator \<Rightarrow> lightbox" where
  "opened y n =
     duration_resolved 0 120
       (ready_resolved 0 1200
          (openLightbox (Some demo_tile) Resolves (always Resolves) 1000
             (constructed (plain_page y) n)))"

text \<open>
  A session with two clicks on a tile in a row, a close whose \<open>destroy()\<close> throws, another
  click, and two full cycles after that.
\<close>

definition demo_session :: "session_event list" where
  "demo_session =
     [Open (Some demo_tile) Resolves (always Resolves) 1000,
      Open (Some demo_tile) Resolves (always Resolves) 1500,
      Close Throws 2000,
      Open (Some demo_tile) Resolves (always Rejects) 3000,
      Close Resolves 4000,
      Open (Some demo_tile) Resolves (always Resolves) 5000,
      ReadyResolves 1 5200,
      Close Rejects 6000]"

text \<open>
  The demo session with a timeline track that is collapsed to width 0 in the middle of
  its container (the element is there and has no extent); the container reaches from 100
  to 500 as before.
\<close>

definition collapsed_track :: lightbox where
  "collapsed_track =
     (opened 0 desktop_nav)
       \<lparr>timeline := (timeline (opened 0 desktop_nav))
          \<lparr>timelineTrack := \<lparr>rect_left = 300, rect_top = 508, rect_width = 0, rect_height = 4\<rparr>\<rparr>\<rparr>"

text \<open>The demo tile was clicked at time 1000 and its player is not ready yet.\<close>

definition load_pending :: lightbox where
  "load_pending =
     openLightbox (Some demo_tile) Resolves (always Resolves) 1000
       (constructed (plain_page 0) desktop_nav)"

text \<open>
  The same, 300 ms later: the timer of \<open>loadVideo\<close> (identifier 2) has shown the controls,
  and the player is still not ready, so no duration is known.
\<close>

definition controls_revealed :: lightbox where
  "controls_revealed = fire_timer 1300 2 load_pending"

text \<open>
  The demo session on a phone, playing: the \<open>play\<close> event arrived at 1250. The toast
  \<open>Tap to unmute\<close>, shown when the player became ready at 1200, is locked until 2700.
\<close>

definition playing_on_phone :: lightbox where
  "playing_on_phone = on_play 1250 (opened 0 phone_nav)"

text \<open>
  Timer identifiers are handed out in increasing order: every pending timer has an
  identifier below the next one.
\<close>

definition timers_fresh :: "lightbox \<Rightarrow> bool" where
  "timers_fresh s = (\<forall>e\<in>set (timers s). fst e < nextTimer s)"

text \<open>
  The same for a tile, whose frames remember the identifier of their failure timer.
\<close>

definition tile_fresh :: "tile \<Rightarrow> bool" where
  "tile_fresh t =
     ((\<forall>e\<in>set (tile_timers t). fst e < tile_nextTimer t)
      \<and> (\<forall>e\<in>set (iframes t). pv_errorTimeout (snd e) < tile_nextTimer t))"

text \<open>No frame other than \<open>i\<close> has \<open>tid\<close> as its failure timer.\<close>

definition others_clear :: "nat \<Rightarrow> nat \<Rightarrow> tile \<Rightarrow> bool" where
  "others_clear i tid t = (\<forall>e\<in>set (iframes t). fst e \<noteq> i \<longrightarrow> pv_errorTimeout (snd e) \<noteq> tid)"

text \<open>The thumbnail is out of sight, as \<open>isElementVisible\<close> judges it.\<close>

definition tile_hidden :: "tile \<Rightarrow> bool" where
  "tile_hidden t = (\<not> isElementVisible (vp t) (Some (th_style t, th_rect t)))"

text \<open>Timer \<open>tid\<close> of the tile is pending, is the failure check, and is due at \<open>due\<close>.\<close>

definition armed :: "nat \<Rightarrow> int \<Rightarrow> tile \<Rightarrow> bool" where
  "armed tid due t = (find (\<lambda>e. fst e = tid) (tile_timers t) = Some (tid, due, ErrorTimeout))"

text \<open>What the scroll lock reads and writes: the page and five fields of \<open>this\<close>.\<close>

definition scroll_view :: "lightbox \<Rightarrow> page \<times> bool \<times> bool \<times> rat \<times> rat \<times> string" where
  "scroll_view s =
     (page s, hadSmoother s, smoother s, savedScrollY s, savedSmootherY s, prevScrollBehavior s)"

text \<open>
  What the last link of the chains of \<open>togglePlayPause\<close> (lines 959 and 970) leaves, in
  terms of the state \<open>s\<close> before the tap and \<open>t\<close> after it: the mute flag is cleared and
  the label follows it; a toast whose lock window is over at \<open>now\<close> (or which has none) is
  dismissed, and inside the window toast, timer and lock are as they were.
\<close>

definition tap_unmuted :: "nat \<Rightarrow> lightbox \<Rightarrow> lightbox \<Rightarrow> bool" where
  "tap_unmuted now s t =
     (\<not> isMuted t
      \<and> muteBtn t = map_option (\<lambda>_. ''Mute'') (muteBtn s)
      \<and> (if toastLockUntil s \<noteq> 0 \<and> int now < toastLockUntil s
         then pauseIndicator t = pauseIndicator s \<and> toastLockUntil t = toastLockUntil s
              \<and> pauseTimeout t = pauseTimeout s \<and> timers t = timers s
         else \<not> toast_visible t
              \<and> (pauseIndicator s \<noteq> None \<longrightarrow> toastLockUntil t = 0 \<and> pauseTimeout t = None)))"

text \<open>A chain that was rejected: flag, label, toast, timers and lock are as before.\<close>

definition tap_failed :: "lightbox \<Rightarrow> lightbox \<Rightarrow> bool" where
  "tap_failed s t =
     (isMuted t \<and> muteBtn t = muteBtn s \<and> pauseIndicator t = pauseIndicator s
      \<and> toastLockUntil t = toastLockUntil s \<and> pauseTimeout t = pauseTimeout s
      \<and> timers t = timers s)"

section \<open>Auxiliary facts\<close>

lemmas display_defs =
  showError_def hideError_def hideLoading_def showLoading_def hideControls_def
  showControls_def setTimeout_def clearTimeout_def sdk_call_def

lemma desktop_not_restricted: "\<not> isAutoplayRestricted desktop_nav"
  by (simp add: isAutoplayRestricted_def desktop_nav_def starts_with_def is_digit_def)

lemma phone_restricted: "isAutoplayRestricted phone_nav"
  by (simp add: isAutoplayRestricted_def phone_nav_def starts_with_def)

lemma url_query_build: "CHR ''?'' \<notin> set a \<Longrightarrow> url_query (a @ CHR ''?'' # q) = q"
  by (simp add: url_query_def dropWhile_append)

lemma videoFrame_issue_until_throw [simp]:
  "videoFrame (issue_until_throw out k h cs s) = videoFrame s"
  by (induction cs arbitrary: k s) (auto simp: sdk_call_def)

lemma loadVideo_src:
  "videoFrame s \<noteq> None \<Longrightarrow> vimeoId \<noteq> Some ''INVALID_VIDEO_ID_FOR_TESTING'' \<Longrightarrow>
   map_option src (videoFrame (loadVideo vimeoId auto ctor out now s)) =
     Some (embedUrl (isAutoplayRestricted (nav s)) vimeoId)"
  by (auto simp: loadVideo_def new_Player_def display_defs Let_def split: option.splits)

lemma createLoopVideoIframe_src:
  "tid \<noteq> [] \<Longrightarrow> tid \<noteq> ''INVALID_ID_FOR_TESTING'' \<Longrightarrow> tid \<noteq> ''undefined'' \<Longrightarrow>
   map (pv_src \<circ> snd) (iframes (createLoopVideoIframe (Some tid) now t)) =
     (if has_img t then previewUrl tid # map (pv_src \<circ> snd) (iframes t)
      else map (pv_src \<circ> snd) (iframes t) @ [previewUrl tid])"
  by (simp add: createLoopVideoIframe_def Let_def)

subsection \<open>Fields a method leaves alone\<close>

lemma sdk_call_fields [simp]:
  "currentPlayer (sdk_call h c s) = currentPlayer s"
  "live (sdk (sdk_call h c s)) = live (sdk s)"
  "nextHandle (sdk (sdk_call h c s)) = nextHandle (sdk s)"
  "calls (sdk (sdk_call h c s)) = calls (sdk s) @ [(h, c)]"
  "videoDuration (sdk_call h c s) = videoDuration s"
  "timeline (sdk_call h c s) = timeline s"
  "controls (sdk_call h c s) = controls s"
  "page (sdk_call h c s) = page s"
  by (simp_all add: sdk_call_def)

lemma timer_fields [simp]:
  "currentPlayer (setTimeout cb d now s) = currentPlayer s"
  "sdk (setTimeout cb d now s) = sdk s"
  "page (setTimeout cb d now s) = page s"
  "currentPlayer (clearTimeout t s) = currentPlayer s"
  "sdk (clearTimeout t s) = sdk s"
  "page (clearTimeout t s) = page s"
  by (simp_all add: setTimeout_def clearTimeout_def)

lemma display_fields [simp]:
  "currentPlayer (hideControls s) = currentPlayer s" "sdk (hideControls s) = sdk s" "page (hideControls s) = page s"
  "currentPlayer (showControls s) = currentPlayer s" "sdk (showControls s) = sdk s" "page (showControls s) = page s"
  "currentPlayer (showLoading now s) = currentPlayer s" "sdk (showLoading now s) = sdk s" "page (showLoading now s) = page s"
  "currentPlayer (hideLoading s) = currentPlayer s" "sdk (hideLoading s) = sdk s" "page (hideLoading s) = page s"
  "currentPlayer (showError s) = currentPlayer s" "sdk (showError s) = sdk s" "page (showError s) = page s"
  "currentPlayer (hideError s) = currentPlayer s" "sdk (hideError s) = sdk s" "page (hideError s) = page s"
  "currentPlayer (updateMuteButtonLabel s) = currentPlayer s" "sdk (updateMuteButtonLabel s) = sdk s"
  "page (updateMuteButtonLabel s) = page s"
  "currentPlayer (updateTimelinePosition p s) = currentPlayer s" "sdk (updateTimelinePosition p s) = sdk s"
  "page (updateTimelinePosition p s) = page s"
  "currentPlayer (recreateIframe s) = currentPlayer s" "sdk (recreateIframe s) = sdk s"
  "page (recreateIframe s) = page s"
  by (simp_all add: display_defs updateMuteButtonLabel_def updateTimelinePosition_def
        recreateIframe_def Let_def split: option.splits)

lemma toast_fields [simp]:
  "currentPlayer (hideCenterToast now s) = currentPlayer s" "sdk (hideCenterToast now s) = sdk s"
  "page (hideCenterToast now s) = page s"
  "currentPlayer (showCenterToast m d now s) = currentPlayer s" "sdk (showCenterToast m d now s) = sdk s"
  "page (showCenterToast m d now s) = page s"
  by (simp_all add: hideCenterToast_def showCenterToast_def setTimeout_def clearTimeout_def Let_def
        split: option.splits)

lemma scroll_fields [simp]:
  "currentPlayer (scroll_lock s) = currentPlayer s" "sdk (scroll_lock s) = sdk s"
  "videoFrame (scroll_lock s) = videoFrame s"
  "currentPlayer (scroll_unlock s) = currentPlayer s" "sdk (scroll_unlock s) = sdk s"
  by (simp_all add: scroll_lock_def scroll_unlock_def native_lock_def Let_def split: option.splits)

lemma resetControls_fields [simp]:
  "currentPlayer (resetControls now s) = currentPlayer s" "sdk (resetControls now s) = sdk s"
  "page (resetControls now s) = page s"
  by (simp_all add: resetControls_def hidePauseIndicator_def Let_def)

lemma issue_until_throw_fields [simp]:
  "currentPlayer (issue_until_throw out k h cs s) = currentPlayer s"
  "live (sdk (issue_until_throw out k h cs s)) = live (sdk s)"
  "nextHandle (sdk (issue_until_throw out k h cs s)) = nextHandle (sdk s)"
  "page (issue_until_throw out k h cs s) = page s"
  by (induction cs arbitrary: k s) auto

subsection \<open>Player handles\<close>

lemma videoFrame_pre: "videoFrame (hideControls (hideError (showLoading now (s\<lparr>allowLoader := True\<rparr>)))) = videoFrame s"
  by (simp add: display_defs)

lemma more_fields [simp]:
  "currentPlayer (showPauseIndicator now s) = currentPlayer s" "sdk (showPauseIndicator now s) = sdk s"
  "currentPlayer (hidePauseIndicator now s) = currentPlayer s" "sdk (hidePauseIndicator now s) = sdk s"
  "currentPlayer (unhandled_rejection s) = currentPlayer s"
  "live (sdk (unhandled_rejection s)) = live (sdk s)"
  "nextHandle (sdk (unhandled_rejection s)) = nextHandle (sdk s)"
  "calls (sdk (unhandled_rejection s)) = calls (sdk s)"
  "durationWaiting (sdk (unhandled_rejection s)) = durationWaiting (sdk s)"
  "durationWaiting (sdk (sdk_call h c s)) = durationWaiting (sdk s)"
  by (simp_all add: showPauseIndicator_def hidePauseIndicator_def unhandled_rejection_def
        sdk_call_def Let_def split: option.splits)

lemma frame_fields [simp]:
  "videoFrame (sdk_call h c s) = videoFrame s"
  "videoFrame (setTimeout cb d now s) = videoFrame s"
  "videoFrame (clearTimeout t s) = videoFrame s"
  "videoFrame (hideControls s) = videoFrame s"
  "videoFrame (showControls s) = videoFrame s"
  "videoFrame (showLoading now s) = videoFrame s"
  "videoFrame (hideLoading s) = videoFrame s"
  "videoFrame (showError s) = videoFrame s"
  "videoFrame (hideError s) = videoFrame s"
  "videoFrame (updateMuteButtonLabel s) = videoFrame s"
  "videoFrame (updateTimelinePosition p s) = videoFrame s"
  "videoFrame (hideCenterToast now s) = videoFrame s"
  "videoFrame (showCenterToast m d now s) = videoFrame s"
  "videoFrame (showPauseIndicator now s) = videoFrame s"
  "videoFrame (hidePauseIndicator now s) = videoFrame s"
  "videoFrame (scroll_unlock s) = videoFrame s"
  "videoFrame (unhandled_rejection s) = videoFrame s"
  "videoFrame (resetControls now s) = videoFrame s"
  by (simp_all add: display_defs updateMuteButtonLabel_def updateTimelinePosition_def
        hideCenterToast_def showCenterToast_def showPauseIndicator_def hidePauseIndicator_def
        scroll_unlock_def unhandled_rejection_def resetControls_def Let_def
        split: option.splits)

lemma duration_fields [simp]:
  "videoDuration (setTimeout cb d now s) = videoDuration s"
  "videoDuration (clearTimeout t s) = videoDuration s"
  "videoDuration (hideControls s) = videoDuration s"
  "videoDuration (showControls s) = videoDuration s"
  "videoDuration (showLoading now s) = videoDuration s"
  "videoDuration (hideLoading s) = videoDuration s"
  "videoDuration (showError s) = videoDuration s"
  "videoDuration (hideError s) = videoDuration s"
  "videoDuration (updateMuteButtonLabel s) = videoDuration s"
  "videoDuration (updateTimelinePosition p s) = videoDuration s"
  "videoDuration (hideCenterToast now s) = videoDuration s"
  "videoDuration (showCenterToast m d now s) = videoDuration s"
  "videoDuration (showPauseIndicator now s) = videoDuration s"
  "videoDuration (hidePauseIndicator now s) = videoDuration s"
  "videoDuration (scroll_lock s) = videoDuration s"
  "videoDuration (scroll_unlock s) = videoDuration s"
  "videoDuration (unhandled_rejection s) = videoDuration s"
  "videoDuration (recreateIframe s) = videoDuration s"
  "videoDuration (resetControls now s) = 0"
  by (simp_all add: display_defs updateMuteButtonLabel_def updateTimelinePosition_def
        hideCenterToast_def showCenterToast_def showPauseIndicator_def hidePauseIndicator_def
        scroll_lock_def scroll_unlock_def native_lock_def unhandled_rejection_def
        recreateIframe_def resetControls_def Let_def
        split: option.splits)

lemma issue_more_fields [simp]:
  "videoDuration (issue_until_throw out k h cs s) = videoDuration s"
  "durationWaiting (sdk (issue_until_throw out k h cs s)) = durationWaiting (sdk s)"
  by (induction cs arbitrary: k s) auto

lemma run_steps_fields [simp]:
  "currentPlayer (snd (snd (run_steps out k h cs s))) = currentPlayer s"
  "videoFrame (snd (snd (run_steps out k h cs s))) = videoFrame s"
  "live (sdk (snd (snd (run_steps out k h cs s)))) = live (sdk s)"
  "nextHandle (sdk (snd (snd (run_steps out k h cs s)))) = nextHandle (sdk s)"
  "durationWaiting (sdk (snd (snd (run_steps out k h cs s)))) = durationWaiting (sdk s)"
  "videoDuration (snd (snd (run_steps out k h cs s))) = videoDuration s"
  by (induction cs arbitrary: k s) auto

lemma handle_view_ready [simp]:
  "handle_view (ready_resolved h now s) = handle_view s"
  "handle_view (ready_rejected h s) = handle_view s"
  "handle_view (duration_resolved h d s) = handle_view s"
  by (auto simp: handle_view_def frame_handle_def ready_resolved_def ready_rejected_def
        duration_resolved_def setupPlayerEvents_def Let_def split: option.splits)

lemma handle_view_bridges [simp]:
  "handle_view (on_play now s) = handle_view s"
  "handle_view (on_pause now s) = handle_view s"
  "handle_view (on_volumechange v s) = handle_view s"
  "handle_view (on_timeupdate sec s) = handle_view s"
  by (simp_all add: handle_view_def frame_handle_def on_play_def on_pause_def
        on_volumechange_def on_timeupdate_def Let_def split: option.splits)

lemma handle_view_toggle [simp]: "handle_view (togglePlayPause out now s) = handle_view s"
proof -
  have r: "handle_view (snd (snd (run_steps out 0 h cs s))) = handle_view s" for h cs
    by (simp add: handle_view_def frame_handle_def)
  have u: "handle_view (hideCenterToast now (updateMuteButtonLabel (x\<lparr>isMuted := False\<rparr>))) = handle_view x"
      "handle_view (sdk_call h c x) = handle_view x"
      "handle_view (unhandled_rejection x) = handle_view x" for x h c
    by (simp_all add: handle_view_def frame_handle_def)
  show ?thesis
    using r by (auto simp: togglePlayPause_def Let_def u split: option.splits prod.splits)
qed

lemma handle_view_timeline [simp]: "handle_view (on_timeline_event ev s) = handle_view s"
  by (cases ev)
     (simp_all add: handle_view_def frame_handle_def on_timeline_event_def handleTimelineClick_def
        handleTimelineHover_def handleTimelineDrag_def startDragging_def stopDragging_def Let_def
        split: option.splits)

lemma handle_view_fire [simp]: "handle_view (fire_timer now tid s) = handle_view s"
  by (auto simp: handle_view_def frame_handle_def fire_timer_def run_callback_def Let_def
        split: option.splits callback.splits)

lemma handles_tidy_view: "handle_view a = handle_view b \<Longrightarrow> handles_tidy a = handles_tidy b"
  by (simp add: handles_tidy_def handle_view_def)

text \<open>
  What \<open>loadVideo\<close> does to the handles: with a player on the frame nothing, otherwise
  nothing or one new handle.
\<close>

lemma loadVideo_keeps:
  assumes "handles_tidy s" and "currentPlayer s = Some h"
  shows "handle_view (loadVideo v a ctor out now s) = handle_view s"
  using assms
  by (auto simp: loadVideo_def new_Player_def handle_view_def frame_handle_def handles_tidy_def
        Let_def split: option.splits)

lemma loadVideo_fresh:
  assumes "handles_tidy s" and "currentPlayer s = None"
  shows "handle_view (loadVideo v a ctor out now s) = handle_view s
    \<or> handle_view (loadVideo v a ctor out now s) =
        (Some (nextHandle (sdk s)), Some (nextHandle (sdk s)), [nextHandle (sdk s)],
         Suc (nextHandle (sdk s)))"
  using assms
  by (auto simp: loadVideo_def new_Player_def handle_view_def frame_handle_def handles_tidy_def
        Let_def split: option.splits)

lemma handle_view_lock [simp]: "handle_view (scroll_lock x) = handle_view x"
  by (simp add: handle_view_def frame_handle_def)

lemma handle_view_pre [simp]:
  "handle_view (s\<lparr>videoTitle := title, lightboxOpenedAt := now, lightbox_active := True\<rparr>) = handle_view s"
  by (simp add: handle_view_def frame_handle_def)

lemma openLightbox_keeps:
  assumes "handles_tidy s" and "currentPlayer s = Some h"
  shows "handle_view (openLightbox d ctor out now s) = handle_view s"
proof -
  let ?s2 = "scroll_lock (s\<lparr>videoTitle := (case d of None \<Rightarrow> [] | Some x \<Rightarrow> dataset_title x),
                            lightboxOpenedAt := now, lightbox_active := True\<rparr>)"
  have v: "handle_view ?s2 = handle_view s"
    by simp
  have t: "handles_tidy ?s2"
    using handles_tidy_view [OF v] assms(1) by simp
  have c: "currentPlayer ?s2 = Some h"
    using assms(2) by simp
  show ?thesis
    using loadVideo_keeps [OF t c] v by (simp add: openLightbox_def Let_def)
qed

lemma openLightbox_fresh:
  assumes "handles_tidy s" and "currentPlayer s = None"
  shows "handle_view (openLightbox d ctor out now s) = handle_view s
    \<or> handle_view (openLightbox d ctor out now s) =
        (Some (nextHandle (sdk s)), Some (nextHandle (sdk s)), [nextHandle (sdk s)],
         Suc (nextHandle (sdk s)))"
proof -
  let ?s2 = "scroll_lock (s\<lparr>videoTitle := (case d of None \<Rightarrow> [] | Some x \<Rightarrow> dataset_title x),
                            lightboxOpenedAt := now, lightbox_active := True\<rparr>)"
  have v: "handle_view ?s2 = handle_view s"
    by simp
  have t: "handles_tidy ?s2"
    using handles_tidy_view [OF v] assms(1) by simp
  have c: "currentPlayer ?s2 = None"
    using assms(2) by simp
  have n: "nextHandle (sdk ?s2) = nextHandle (sdk s)"
    by simp
  show ?thesis
    using loadVideo_fresh [OF t c] v n by (simp add: openLightbox_def Let_def)
qed

text \<open>What \<open>closeLightbox\<close> does to the handles.\<close>

lemma closeLightbox_none:
  assumes "currentPlayer s = None"
  shows "handle_view (closeLightbox dout now s) = (None, None, live (sdk s), nextHandle (sdk s))"
    and "calls (sdk (closeLightbox dout now s)) = calls (sdk s)"
  using assms
  by (simp_all add: closeLightbox_def handle_view_def frame_handle_def recreateIframe_def Let_def)

lemma closeLightbox_thrown:
  assumes "currentPlayer s = Some h"
  shows "handle_view (closeLightbox Throws now s) = handle_view s"
    and "duration_view (closeLightbox Throws now s) = duration_view s"
    and "calls (sdk (closeLightbox Throws now s)) = calls (sdk s) @ [(h, Destroy)]"
  using assms
  by (simp_all add: closeLightbox_def handle_view_def duration_view_def frame_handle_def Let_def)

lemma closeLightbox_destroyed:
  assumes "currentPlayer s = Some h" and "dout \<noteq> Throws"
  shows "handle_view (closeLightbox dout now s) =
           (None, None, removeAll h (live (sdk s)), nextHandle (sdk s))"
    and "calls (sdk (closeLightbox dout now s)) = calls (sdk s) @ [(h, Destroy)]"
    and "durationWaiting (sdk (closeLightbox dout now s)) = removeAll h (durationWaiting (sdk s))"
  using assms
  by (simp_all add: closeLightbox_def player_destroyed_def handle_view_def frame_handle_def
        recreateIframe_def Let_def)

lemma closeLightbox_duration:
  "dout \<noteq> Throws \<or> currentPlayer s = None \<Longrightarrow> videoDuration (closeLightbox dout now s) = 0"
  by (auto simp: closeLightbox_def Let_def split: option.splits)

text \<open>
  One step of a session: it keeps the invariant, and either constructs no handle and
  adds none to the live ones, or finds no handle live and constructs one, which is then
  the only live one.
\<close>

lemma step_handles:
  assumes "handles_tidy s"
  shows "handles_tidy (session_step e s)
    \<and> (nextHandle (sdk (session_step e s)) = nextHandle (sdk s)
         \<and> set (live (sdk (session_step e s))) \<subseteq> set (live (sdk s))
       \<or> live (sdk s) = [] \<and> live (sdk (session_step e s)) = [nextHandle (sdk s)]
         \<and> nextHandle (sdk (session_step e s)) = Suc (nextHandle (sdk s)))"
proof -
  have keep: "handles_tidy t
      \<and> (nextHandle (sdk t) = nextHandle (sdk s) \<and> set (live (sdk t)) \<subseteq> set (live (sdk s))
         \<or> live (sdk s) = [] \<and> live (sdk t) = [nextHandle (sdk s)]
           \<and> nextHandle (sdk t) = Suc (nextHandle (sdk s)))"
    if "handle_view t = handle_view s" for t
    using that assms handles_tidy_view [OF that] by (simp add: handle_view_def)
  show ?thesis
  proof (cases e)
    case (Open d ctor out now)
    show ?thesis
    proof (cases "currentPlayer s")
      case None
      then show ?thesis
        using openLightbox_fresh [OF assms None, of d ctor out now] keep Open assms
        by (auto simp: handle_view_def handles_tidy_def)
    next
      case (Some h)
      then show ?thesis
        using openLightbox_keeps [OF assms Some, of d ctor out now] keep Open by simp
    qed
  next
    case (Load v a ctor out now)
    show ?thesis
    proof (cases "currentPlayer s")
      case None
      then show ?thesis
        using loadVideo_fresh [OF assms None, of v a ctor out now] keep Load assms
        by (auto simp: handle_view_def handles_tidy_def)
    next
      case (Some h)
      then show ?thesis
        using loadVideo_keeps [OF assms Some, of v a ctor out now] keep Load by simp
    qed
  next
    case (Close dout now)
    show ?thesis
    proof (cases "currentPlayer s")
      case None
      then show ?thesis
        using closeLightbox_none(1) [OF None, of dout now] Close assms
        by (auto simp: handle_view_def handles_tidy_def)
    next
      case (Some h)
      show ?thesis
      proof (cases "dout = Throws")
        case True
        then show ?thesis
          using closeLightbox_thrown(1) [OF Some, of now] keep Close by simp
      next
        case False
        then show ?thesis
          using closeLightbox_destroyed(1) [OF Some False, of now] Close assms Some
          by (auto simp: handle_view_def handles_tidy_def)
      qed
    qed
  qed (simp_all add: keep)
qed

lemma run_handles: "handles_tidy s \<Longrightarrow> handles_tidy (session_run evs s)"
  unfolding session_run_def
  by (induction evs arbitrary: s) (simp_all add: step_handles)

lemma run_take_Suc:
  "n < length evs \<Longrightarrow>
   session_run (take (Suc n) evs) s = session_step (evs ! n) (session_run (take n evs) s)"
  by (simp add: session_run_def take_Suc_conv_app_nth)

subsection \<open>The cached duration\<close>

lemma duration_view_bridges [simp]:
  "duration_view (ready_rejected h s) = duration_view s"
  "duration_view (on_play now s) = duration_view s"
  "duration_view (on_pause now s) = duration_view s"
  "duration_view (on_volumechange v s) = duration_view s"
  "duration_view (on_timeupdate sec s) = duration_view s"
  by (simp_all add: duration_view_def ready_rejected_def on_play_def on_pause_def
        on_volumechange_def on_timeupdate_def Let_def split: option.splits)

lemma duration_view_toggle [simp]: "duration_view (togglePlayPause out now s) = duration_view s"
proof -
  have r: "duration_view (snd (snd (run_steps out 0 h cs s))) = duration_view s" for h cs
    by (simp add: duration_view_def)
  have u: "duration_view (hideCenterToast now (updateMuteButtonLabel (x\<lparr>isMuted := False\<rparr>))) = duration_view x"
      "duration_view (sdk_call h c x) = duration_view x"
      "duration_view (unhandled_rejection x) = duration_view x" for x h c
    by (simp_all add: duration_view_def)
  show ?thesis
    using r by (auto simp: togglePlayPause_def Let_def u split: option.splits prod.splits)
qed

lemma duration_view_timeline [simp]: "duration_view (on_timeline_event ev s) = duration_view s"
  by (cases ev)
     (simp_all add: duration_view_def on_timeline_event_def handleTimelineClick_def
        handleTimelineHover_def handleTimelineDrag_def startDragging_def stopDragging_def Let_def
        split: option.splits)

lemma duration_view_fire [simp]: "duration_view (fire_timer now tid s) = duration_view s"
  by (auto simp: duration_view_def fire_timer_def run_callback_def Let_def
        split: option.splits callback.splits)

lemma duration_view_load [simp]: "duration_view (loadVideo v a ctor out now s) = duration_view s"
  by (auto simp: duration_view_def loadVideo_def new_Player_def Let_def split: option.splits)

lemma duration_view_open [simp]: "duration_view (openLightbox d ctor out now s) = duration_view s"
proof -
  have "duration_view (openLightbox d ctor out now s) =
      duration_view (scroll_lock (s\<lparr>videoTitle := (case d of None \<Rightarrow> [] | Some x \<Rightarrow> dataset_title x),
                                     lightboxOpenedAt := now, lightbox_active := True\<rparr>))"
    by (simp add: openLightbox_def Let_def)
  then show ?thesis
    by (simp add: duration_view_def)
qed

lemma session_tidy_view:
  "handle_view a = handle_view b \<Longrightarrow> duration_view a = duration_view b \<Longrightarrow>
   session_tidy a = session_tidy b"
  by (simp add: session_tidy_def handles_tidy_def handle_view_def duration_view_def)

lemma ready_resolved_duration:
  "videoDuration (ready_resolved h now s) = videoDuration s"
  "set (durationWaiting (sdk (ready_resolved h now s)))
     \<subseteq> set (durationWaiting (sdk s)) \<union> set_option (currentPlayer s)"
  by (auto simp: ready_resolved_def setupPlayerEvents_def Let_def split: option.splits)

lemma duration_resolved_duration:
  "set (durationWaiting (sdk (duration_resolved h d s))) \<subseteq> set (durationWaiting (sdk s))"
  "h \<notin> set (durationWaiting (sdk s)) \<Longrightarrow> videoDuration (duration_resolved h d s) = videoDuration s"
  using set_remove1_subset [of h "durationWaiting (sdk s)"]
  by (auto simp: duration_resolved_def)

lemma step_session:
  assumes "session_tidy s"
  shows "session_tidy (session_step e s)"
proof -
  have ht: "handles_tidy s"
    using assms by (simp add: session_tidy_def)
  have ht': "handles_tidy (session_step e s)"
    using step_handles [OF ht] by simp
  have keep: "session_tidy t"
    if "handle_view t = handle_view s" "duration_view t = duration_view s" for t
    using session_tidy_view [OF that] assms by simp
  show ?thesis
  proof (cases e)
    case (Open d ctor out now)
    show ?thesis
    proof (cases "currentPlayer s")
      case None
      then have "durationWaiting (sdk s) = []" "videoDuration s = 0"
        using assms by (auto simp: session_tidy_def)
      then have "durationWaiting (sdk (openLightbox d ctor out now s)) = []"
          "videoDuration (openLightbox d ctor out now s) = 0"
        using duration_view_open [of d ctor out now s] by (simp_all add: duration_view_def)
      then show ?thesis
        using ht' Open by (simp add: session_tidy_def)
    next
      case (Some h)
      then show ?thesis
        using openLightbox_keeps [OF ht Some, of d ctor out now] keep Open by simp
    qed
  next
    case (Load v a ctor out now)
    show ?thesis
    proof (cases "currentPlayer s")
      case None
      then have "durationWaiting (sdk s) = []" "videoDuration s = 0"
        using assms by (auto simp: session_tidy_def)
      then have "durationWaiting (sdk (loadVideo v a ctor out now s)) = []"
          "videoDuration (loadVideo v a ctor out now s) = 0"
        using duration_view_load [of v a ctor out now s] by (simp_all add: duration_view_def)
      then show ?thesis
        using ht' Load by (simp add: session_tidy_def)
    next
      case (Some h)
      then show ?thesis
        using loadVideo_keeps [OF ht Some, of v a ctor out now] keep Load by simp
    qed
  next
    case (Close dout now)
    show ?thesis
    proof (cases "currentPlayer s")
      case None
      then have dw: "durationWaiting (sdk s) = []"
        using assms by (auto simp: session_tidy_def)
      have "durationWaiting (sdk (closeLightbox dout now s)) = durationWaiting (sdk s)"
        using None by (simp add: closeLightbox_def Let_def)
      then show ?thesis
        using ht' Close dw closeLightbox_duration [of dout s now] None
        by (simp add: session_tidy_def)
    next
      case (Some h)
      show ?thesis
      proof (cases "dout = Throws")
        case True
        then show ?thesis
          using closeLightbox_thrown(1,2) [OF Some, of now] keep Close by simp
      next
        case False
        have "set (durationWaiting (sdk s)) \<subseteq> {h}"
          using assms Some by (auto simp: session_tidy_def)
        then have "durationWaiting (sdk (closeLightbox dout now s)) = []"
          using closeLightbox_destroyed(3) [OF Some False, of now]
          by (auto simp: removeAll_id filter_empty_conv removeAll_filter_not_eq)
        then show ?thesis
          using ht' Close closeLightbox_duration [of dout s now] False
          by (simp add: session_tidy_def)
      qed
    qed
  next
    case (ReadyResolves h now)
    have c: "currentPlayer (ready_resolved h now s) = currentPlayer s"
      using handle_view_ready(1) [of h now s] by (simp add: handle_view_def)
    show ?thesis
      using ht' ReadyResolves assms c ready_resolved_duration [of h now s]
      by (auto simp: session_tidy_def)
  next
    case (DurationResolves h d)
    have c: "currentPlayer (duration_resolved h d s) = currentPlayer s"
      using handle_view_ready(3) [of h d s] by (simp add: handle_view_def)
    show ?thesis
      using ht' DurationResolves assms c duration_resolved_duration(1) [of h d s]
        duration_resolved_duration(2) [of h s d]
      by (auto simp: session_tidy_def)
  qed (simp_all add: keep)
qed

lemma run_session: "session_tidy s \<Longrightarrow> session_tidy (session_run evs s)"
  unfolding session_run_def
  by (induction evs arbitrary: s) (simp_all add: step_session)

lemma start_tidy: "at_start s \<Longrightarrow> session_tidy s"
  by (simp add: at_start_def session_tidy_def handles_tidy_def)

lemma constructed_start: "at_start (constructed p n)"
  by (simp add: at_start_def frame_handle_def constructed_def)

subsection \<open>The seek fraction\<close>

lemma clamp_quotient:
  "0 < rect_width r \<Longrightarrow>
   Math_max (Fin 0) (Math_min (Fin 1) (js_div (x - rect_left r) (rect_width r))) =
     Fin (spec_positionToFraction x r)"
  by (simp add: js_div_def spec_positionToFraction_def)

lemma fraction_range: "0 \<le> spec_positionToFraction x r \<and> spec_positionToFraction x r \<le> 1"
  unfolding spec_positionToFraction_def by simp

lemma fraction_mono:
  "0 < rect_width r \<Longrightarrow> x \<le> y \<Longrightarrow> spec_positionToFraction x r \<le> spec_positionToFraction y r"
  unfolding spec_positionToFraction_def
  by (intro max.mono min.mono order_refl divide_right_mono) auto

lemma fraction_strict:
  "0 < rect_width r \<Longrightarrow> rect_left r \<le> x \<Longrightarrow> x < y \<Longrightarrow> y \<le> rect_left r + rect_width r \<Longrightarrow>
   spec_positionToFraction x r < spec_positionToFraction y r"
  unfolding spec_positionToFraction_def
  by (simp add: divide_strict_right_mono min_def max_def field_simps)

lemma fraction_left: "0 < rect_width r \<Longrightarrow> x \<le> rect_left r \<Longrightarrow> spec_positionToFraction x r = 0"
  unfolding spec_positionToFraction_def by (simp add: min_def max_def field_simps)

lemma fraction_right:
  "0 < rect_width r \<Longrightarrow> rect_left r + rect_width r \<le> x \<Longrightarrow> spec_positionToFraction x r = 1"
  unfolding spec_positionToFraction_def by (simp add: min_def max_def field_simps)

lemma click_uses_fraction:
  "0 < rect_width (timelineTrack (timeline s)) \<Longrightarrow> currentPlayer s = Some h \<Longrightarrow> videoDuration s \<noteq> 0 \<Longrightarrow>
   handleTimelineClick x s =
     updateTimelinePosition (Fin (spec_positionToFraction x (timelineTrack (timeline s))))
       (sdk_call h (SetCurrentTime (Fin (spec_positionToFraction x (timelineTrack (timeline s)) * videoDuration s))) s)"
  by (simp add: handleTimelineClick_def Let_def clamp_quotient)

lemma drag_uses_fraction:
  "0 < rect_width (timelineTrack (timeline s)) \<Longrightarrow> currentPlayer s = Some h \<Longrightarrow> videoDuration s \<noteq> 0 \<Longrightarrow>
   calls (sdk (handleTimelineDrag x s)) =
     calls (sdk s) @ [(h, SetCurrentTime (Fin (spec_positionToFraction x (timelineTrack (timeline s)) * videoDuration s)))]
   \<and> timelineProgress_width (timeline (handleTimelineDrag x s)) =
       Fin (spec_positionToFraction x (timelineTrack (timeline s)) * 100)
   \<and> timelineHandle_left (timeline (handleTimelineDrag x s)) =
       Fin (spec_positionToFraction x (timelineTrack (timeline s)) * 100)"
  by (simp add: handleTimelineDrag_def Let_def clamp_quotient updateTimelinePosition_def sdk_call_def
       split: option.splits)

lemma hover_uses_fraction:
  "0 < rect_width (timelineTrack (timeline s)) \<Longrightarrow> timelineContainer (timeline s) = Some c \<Longrightarrow>
   timelineHoverTime (timeline s) = Some lbl \<Longrightarrow> videoDuration s \<noteq> 0 \<Longrightarrow>
   map_option hov_text (timelineHoverTime (timeline (handleTimelineHover x s))) =
     Some (formatTime (Fin (spec_positionToFraction x (timelineTrack (timeline s)) * videoDuration s)))"
  by (simp add: handleTimelineHover_def Let_def clamp_quotient)

text \<open>The state of the demo session on a desktop browser, written out.\<close>

lemma opened_desktop:
  "opened 0 desktop_nav =
     (constructed (plain_page 0) desktop_nav)
       \<lparr>currentPlayer := Some 0, videoDuration := 120, lightboxOpenedAt := 1000,
        lightbox_active := True, videoTitle := ''Demo'',
        videoFrame := Some \<lparr>src = ''https://player.vimeo.com/video/123?autoplay=0&muted=0&controls=0&dnt=1&transparent=0&playsinline=1'',
                             frame_opacity = ''1'', frame_player = Some 0\<rparr>,
        totalTimeEl := Some ''2:00'',
        page := \<lparr>scrollY = 0, html_top = ''-0px'', html_position = ''fixed'',
                  html_width = ''100%'', html_scrollBehavior = ''auto'',
                  html_lightbox_active = True, body_lightbox_active = True,
                  body_overflow = ''hidden'', scrollSmoother = None, detect_throws = False\<rparr>,
        timers := [(2, 1300, CbShowControls)], nextTimer := 3,
        sdk := \<lparr>live = [0], nextHandle = 1,
                 calls = [(0, SetMuted False), (0, SetVolume 1), (0, Play), (0, Ready),
                          (0, On ''play''), (0, On ''pause''), (0, On ''volumechange''),
                          (0, On ''timeupdate''), (0, GetDuration), (0, SetVolume 1)],
                 readyWaiting = [], durationWaiting = [], unhandled = 0\<rparr>\<rparr>"
  by code_simp

subsection \<open>Timer identifiers stay fresh\<close>

lemma fresh_setTimeout [simp]: "timers_fresh s \<Longrightarrow> timers_fresh (setTimeout cb d now s)"
  by (auto simp: timers_fresh_def setTimeout_def)

lemma fresh_clearTimeout [simp]: "timers_fresh s \<Longrightarrow> timers_fresh (clearTimeout t s)"
  by (auto simp: timers_fresh_def clearTimeout_def)

lemma fresh_updates [simp]:
  "timers_fresh (currentPlayer_update f1 s) = timers_fresh s"
  "timers_fresh (isPlaying_update f2 s) = timers_fresh s"
  "timers_fresh (isMuted_update f3 s) = timers_fresh s"
  "timers_fresh (muteBtn_update f4 s) = timers_fresh s"
  "timers_fresh (videoDuration_update f5 s) = timers_fresh s"
  "timers_fresh (isDragging_update f6 s) = timers_fresh s"
  "timers_fresh (pauseTimeout_update f7 s) = timers_fresh s"
  "timers_fresh (toastLockUntil_update f8 s) = timers_fresh s"
  "timers_fresh (lightboxOpenedAt_update f9 s) = timers_fresh s"
  "timers_fresh (loadingTimeoutId_update g1 s) = timers_fresh s"
  "timers_fresh (allowLoader_update g2 s) = timers_fresh s"
  "timers_fresh (savedScrollY_update g3 s) = timers_fresh s"
  "timers_fresh (prevScrollBehavior_update g4 s) = timers_fresh s"
  "timers_fresh (smoother_update g5 s) = timers_fresh s"
  "timers_fresh (hadSmoother_update g6 s) = timers_fresh s"
  "timers_fresh (savedSmootherY_update g7 s) = timers_fresh s"
  "timers_fresh (lightbox_active_update g8 s) = timers_fresh s"
  "timers_fresh (videoTitle_update g9 s) = timers_fresh s"
  "timers_fresh (videoFrame_update h1 s) = timers_fresh s"
  "timers_fresh (playBtn_update h2 s) = timers_fresh s"
  "timers_fresh (currentTimeEl_update h3 s) = timers_fresh s"
  "timers_fresh (totalTimeEl_update h4 s) = timers_fresh s"
  "timers_fresh (loading_update h5 s) = timers_fresh s"
  "timers_fresh (pauseIndicator_update h6 s) = timers_fresh s"
  "timers_fresh (pauseText_update h7 s) = timers_fresh s"
  "timers_fresh (errorPlaceholder_update h8 s) = timers_fresh s"
  "timers_fresh (controls_update h9 s) = timers_fresh s"
  "timers_fresh (timeline_update k1 s) = timers_fresh s"
  "timers_fresh (page_update k2 s) = timers_fresh s"
  "timers_fresh (nav_update k3 s) = timers_fresh s"
  "timers_fresh (sdk_update k4 s) = timers_fresh s"
  by (simp_all add: timers_fresh_def)

lemma fresh_display [simp]:
  "timers_fresh s \<Longrightarrow> timers_fresh (hideControls s)"
  "timers_fresh s \<Longrightarrow> timers_fresh (showControls s)"
  "timers_fresh s \<Longrightarrow> timers_fresh (showLoading now s)"
  "timers_fresh s \<Longrightarrow> timers_fresh (hideLoading s)"
  "timers_fresh s \<Longrightarrow> timers_fresh (updateMuteButtonLabel s)"
  "timers_fresh s \<Longrightarrow> timers_fresh (updateTimelinePosition p s)"
  "timers_fresh s \<Longrightarrow> timers_fresh (sdk_call h c s)"
  "timers_fresh s \<Longrightarrow> timers_fresh (recreateIframe s)"
  "timers_fresh s \<Longrightarrow> timers_fresh (unhandled_rejection s)"
  by (simp_all add: hideControls_def showControls_def showLoading_def hideLoading_def
        updateMuteButtonLabel_def updateTimelinePosition_def sdk_call_def recreateIframe_def
        unhandled_rejection_def Let_def split: option.splits)

lemma fresh_error [simp]:
  "timers_fresh s \<Longrightarrow> timers_fresh (showError s)"
  "timers_fresh s \<Longrightarrow> timers_fresh (hideError s)"
  by (simp_all add: showError_def hideError_def Let_def)

lemma fresh_toast [simp]:
  "timers_fresh s \<Longrightarrow> timers_fresh (showCenterToast m d now s)"
  "timers_fresh s \<Longrightarrow> timers_fresh (hideCenterToast now s)"
  "timers_fresh s \<Longrightarrow> timers_fresh (showPauseIndicator now s)"
  "timers_fresh s \<Longrightarrow> timers_fresh (hidePauseIndicator now s)"
  by (simp_all add: showCenterToast_def hideCenterToast_def showPauseIndicator_def
        hidePauseIndicator_def Let_def split: option.splits)

lemma fresh_fire [simp]: "timers_fresh s \<Longrightarrow> timers_fresh (fire_timer now tid s)"
  by (auto simp: fire_timer_def run_callback_def Let_def split: option.splits callback.splits)

lemma fresh_scroll [simp]:
  "timers_fresh s \<Longrightarrow> timers_fresh (scroll_lock s)"
  "timers_fresh s \<Longrightarrow> timers_fresh (scroll_unlock s)"
  by (simp_all add: scroll_lock_def scroll_unlock_def native_lock_def Let_def split: option.splits)

lemma fresh_issue [simp]: "timers_fresh s \<Longrightarrow> timers_fresh (issue_until_throw out k h cs s)"
  by (induction cs arbitrary: k s) auto

lemma fresh_run_steps [simp]: "timers_fresh s \<Longrightarrow> timers_fresh (snd (snd (run_steps out k h cs s)))"
  by (induction cs arbitrary: k s) auto

lemma fresh_loadVideo [simp]: "timers_fresh s \<Longrightarrow> timers_fresh (loadVideo v a ctor out now s)"
  by (simp add: loadVideo_def new_Player_def Let_def split: option.splits)

lemma fresh_open [simp]: "timers_fresh s \<Longrightarrow> timers_fresh (openLightbox d ctor out now s)"
  by (simp add: openLightbox_def Let_def)

lemma fresh_reset [simp]: "timers_fresh s \<Longrightarrow> timers_fresh (resetControls now s)"
  by (simp add: resetControls_def Let_def)

lemma fresh_close [simp]: "timers_fresh s \<Longrightarrow> timers_fresh (closeLightbox dout now s)"
  by (simp add: closeLightbox_def player_destroyed_def Let_def split: option.splits)

lemma fresh_ready [simp]:
  "timers_fresh s \<Longrightarrow> timers_fresh (ready_resolved h now s)"
  "timers_fresh s \<Longrightarrow> timers_fresh (ready_rejected h s)"
  "timers_fresh s \<Longrightarrow> timers_fresh (duration_resolved h d s)"
  by (simp_all add: ready_resolved_def ready_rejected_def duration_resolved_def
        setupPlayerEvents_def Let_def split: option.splits)

lemma fresh_bridges [simp]:
  "timers_fresh s \<Longrightarrow> timers_fresh (on_play now s)"
  "timers_fresh s \<Longrightarrow> timers_fresh (on_pause now s)"
  "timers_fresh s \<Longrightarrow> timers_fresh (on_volumechange v s)"
  "timers_fresh s \<Longrightarrow> timers_fresh (on_timeupdate sec s)"
  by (simp_all add: on_play_def on_pause_def on_volumechange_def on_timeupdate_def Let_def
        split: option.splits)

lemma fresh_toggle [simp]: "timers_fresh s \<Longrightarrow> timers_fresh (togglePlayPause out now s)"
proof -
  assume f: "timers_fresh s"
  have r: "timers_fresh (snd (snd (run_steps out 0 h cs s)))" for h cs
    using f by simp
  show ?thesis
    using f r
    by (auto simp: togglePlayPause_def Let_def split: option.splits prod.splits)
qed

lemma fresh_timeline [simp]:
  "timers_fresh s \<Longrightarrow> timers_fresh (on_timeline_event ev s)"
  by (cases ev)
     (simp_all add: on_timeline_event_def handleTimelineClick_def handleTimelineHover_def
        handleTimelineDrag_def startDragging_def stopDragging_def Let_def split: option.splits)

lemma fresh_constructed: "timers_fresh (constructed p n)"
  by (simp add: timers_fresh_def constructed_def)

subsection \<open>The toast and its timer\<close>

lemma show_lock:
  "pauseIndicator s = Some ind \<Longrightarrow>
   toastLockUntil (showCenterToast m d T s) = int T + d
   \<and> pauseIndicator (showCenterToast m d T s) =
       Some (ind\<lparr>ind_active := True, ind_opacity := ''1'', ind_visibility := ''visible''\<rparr>)
   \<and> pauseTimeout (showCenterToast m d T s) = Some (nextTimer s)
   \<and> timers (showCenterToast m d T s) =
       (case pauseTimeout s of None \<Rightarrow> timers s | Some t \<Rightarrow> filter (\<lambda>e. fst e \<noteq> t) (timers s))
       @ [(nextTimer s, int T + max 0 d, CbHideToast)]"
  by (simp add: showCenterToast_def setTimeout_def clearTimeout_def Let_def split: option.splits)

lemma hide_locked:
  "toastLockUntil s \<noteq> 0 \<Longrightarrow> int t < toastLockUntil s \<Longrightarrow> hideCenterToast t s = s"
  by (simp add: hideCenterToast_def split: option.splits)

lemma hide_before_deadline:
  "int t < int T + d \<Longrightarrow> hideCenterToast t (showCenterToast m d T s) = showCenterToast m d T s"
proof (cases "pauseIndicator s")
  case None
  then show ?thesis by (simp add: hideCenterToast_def showCenterToast_def)
next
  case (Some ind)
  assume lt: "int t < int T + d"
  then have "int T + d \<noteq> 0" by linarith
  then show ?thesis using lt show_lock [OF Some, of m d T] by (intro hide_locked) simp_all
qed

lemma hides_before_deadline:
  "\<forall>t\<in>set ts. int t < int T + d \<Longrightarrow>
   fold hideCenterToast ts (showCenterToast m d T s) = showCenterToast m d T s"
  by (induction ts) (simp_all add: hide_before_deadline)

lemma hide_unlocked:
  "pauseIndicator s = Some ind \<Longrightarrow> toastLockUntil s \<le> int t \<Longrightarrow>
   \<not> toast_visible (hideCenterToast t s) \<and> pauseTimeout (hideCenterToast t s) = None
   \<and> timers (hideCenterToast t s) =
       (case pauseTimeout s of None \<Rightarrow> timers s | Some i \<Rightarrow> filter (\<lambda>e. fst e \<noteq> i) (timers s))"
  by (auto simp: hideCenterToast_def toast_visible_def clearTimeout_def Let_def split: option.splits)

lemma hide_after_deadline:
  assumes "pauseIndicator s \<noteq> None" and "int T + d \<le> int t"
  shows "\<not> toast_visible (hideCenterToast t (showCenterToast m d T s))
     \<and> pauseTimeout (hideCenterToast t (showCenterToast m d T s)) = None
     \<and> nextTimer s \<notin> fst ` set (timers (hideCenterToast t (showCenterToast m d T s)))"
proof -
  from assms(1) obtain ind where i: "pauseIndicator s = Some ind" by auto
  note sl = show_lock [OF i, of m d T]
  from sl have l: "toastLockUntil (showCenterToast m d T s) \<le> int t" using assms(2) by simp
  from sl have pi: "pauseIndicator (showCenterToast m d T s) =
       Some (ind\<lparr>ind_active := True, ind_opacity := ''1'', ind_visibility := ''visible''\<rparr>)" by simp
  from hide_unlocked [OF pi l] sl show ?thesis by auto
qed

lemma find_fresh:
  "\<forall>e\<in>set xs. fst e \<noteq> i \<Longrightarrow> find (\<lambda>e. fst e = i) (xs @ [(i, a, b)]) = Some (i, a, b)"
  by (induction xs) auto

lemma timer_hides:
  assumes "pauseIndicator s \<noteq> None" and fresh: "\<forall>e\<in>set (timers s). fst e < nextTimer s"
    and due: "int T + max 0 d \<le> int t"
  shows "\<not> toast_visible (fire_timer t (nextTimer s) (showCenterToast m d T s))
    \<and> pauseTimeout (fire_timer t (nextTimer s) (showCenterToast m d T s)) = None"
proof -
  from assms(1) obtain ind where i: "pauseIndicator s = Some ind" by auto
  note sl = show_lock [OF i, of m d T]
  let ?s' = "showCenterToast m d T s"
  have fr: "\<forall>e\<in>set (case pauseTimeout s of None \<Rightarrow> timers s
                      | Some t \<Rightarrow> filter (\<lambda>e. fst e \<noteq> t) (timers s)). fst e \<noteq> nextTimer s"
    using fresh by (auto split: option.splits)
  have f: "find (\<lambda>e. fst e = nextTimer s) (timers ?s') = Some (nextTimer s, int T + max 0 d, CbHideToast)"
    using sl find_fresh [OF fr] by simp
  have pi: "pauseIndicator (clearTimeout (nextTimer s) ?s') =
       Some (ind\<lparr>ind_active := True, ind_opacity := ''1'', ind_visibility := ''visible''\<rparr>)"
    using sl by (simp add: clearTimeout_def)
  have l: "toastLockUntil (clearTimeout (nextTimer s) ?s') \<le> int t"
    using sl due by (simp add: clearTimeout_def)
  have "fire_timer t (nextTimer s) ?s' = hideCenterToast t (clearTimeout (nextTimer s) ?s')"
    using f due by (simp add: fire_timer_def run_callback_def)
  with hide_unlocked [OF pi l] show ?thesis by simp
qed

lemma timer_not_early:
  assumes "pauseIndicator s \<noteq> None" and fresh: "\<forall>e\<in>set (timers s). fst e < nextTimer s"
    and early: "int t < int T + max 0 d"
  shows "fire_timer t (nextTimer s) (showCenterToast m d T s) = showCenterToast m d T s"
proof -
  from assms(1) obtain ind where i: "pauseIndicator s = Some ind" by auto
  note sl = show_lock [OF i, of m d T]
  have fr: "\<forall>e\<in>set (case pauseTimeout s of None \<Rightarrow> timers s
                      | Some t \<Rightarrow> filter (\<lambda>e. fst e \<noteq> t) (timers s)). fst e \<noteq> nextTimer s"
    using fresh by (auto split: option.splits)
  have f: "find (\<lambda>e. fst e = nextTimer s) (timers (showCenterToast m d T s))
           = Some (nextTimer s, int T + max 0 d, CbHideToast)"
    using sl find_fresh [OF fr] by simp
  show ?thesis using f early by (simp add: fire_timer_def)
qed

lemma show_visible: "pauseIndicator s \<noteq> None \<Longrightarrow> toast_visible (showCenterToast m d T s)"
  by (auto simp: toast_visible_def showCenterToast_def setTimeout_def Let_def split: option.splits)

subsection \<open>Errors and the reveal timer\<close>

lemma rejected_effect:
  "h \<in> set (readyWaiting (sdk s)) \<Longrightarrow>
   errorPlaceholder (ready_rejected h s) = map_option (\<lambda>_. True) (errorPlaceholder s)
   \<and> controls (ready_rejected h s) = map_option (\<lambda>_. ''none'') (controls s)
   \<and> loading (ready_rejected h s) = map_option (\<lambda>_. False) (loading s)"
  by (auto simp: ready_rejected_def display_defs Let_def split: option.splits)

lemma callback_controls:
  "cb \<noteq> CbShowControls \<Longrightarrow> controls (run_callback cb t u) = controls u"
  by (cases cb) (auto simp: run_callback_def hideCenterToast_def clearTimeout_def Let_def split: option.splits)

lemma fire_no_reveal:
  "\<forall>e\<in>set (timers u). snd (snd e) \<noteq> CbShowControls \<Longrightarrow> controls (fire_timer t tid u) = controls u"
proof (cases "find (\<lambda>e. fst e = tid) (timers u)")
  case None
  then show ?thesis by (simp add: fire_timer_def)
next
  case (Some e)
  assume a: "\<forall>e\<in>set (timers u). snd (snd e) \<noteq> CbShowControls"
  obtain i due cb where e: "e = (i, due, cb)" by (cases e)
  from Some have "e \<in> set (timers u)" by (auto simp: find_Some_iff)
  with a e have "cb \<noteq> CbShowControls" by auto
  with Some e show ?thesis
    by (simp add: fire_timer_def callback_controls clearTimeout_def)
qed

lemma fire_reveal:
  "find (\<lambda>e. fst e = tid) (timers u) = Some (tid, due, CbShowControls) \<Longrightarrow> due \<le> int t \<Longrightarrow>
   controls (fire_timer t tid u) = map_option (\<lambda>_. []) (controls u)
   \<and> errorPlaceholder (fire_timer t tid u) = errorPlaceholder u"
  by (simp add: fire_timer_def run_callback_def showControls_def clearTimeout_def)

lemma loadVideo_arms:
  "constructs v ctor s \<Longrightarrow>
   (\<exists>h. currentPlayer (loadVideo v a ctor out now s) = Some h
        \<and> h \<in> set (readyWaiting (sdk (loadVideo v a ctor out now s))))
   \<and> (\<exists>tid. (tid, int now + 300, CbShowControls) \<in> set (timers (loadVideo v a ctor out now s)))"
  by (auto simp: loadVideo_def new_Player_def constructs_def Let_def videoFrame_pre setTimeout_def
        split: option.splits)

subsection \<open>The branches of a tap\<close>

lemma toggle_unmute_playing:
  "currentPlayer s = Some h \<Longrightarrow> isPlaying s \<Longrightarrow> isAutoplayRestricted (nav s) \<Longrightarrow> isMuted s \<Longrightarrow>
   togglePlayPause out now s =
     (if out 0 = Rejects then sdk_call h (SetMuted False) s
      else if out 1 = Rejects then sdk_call h (SetVolume 1) (sdk_call h (SetMuted False) s)
      else hideCenterToast now
             (updateMuteButtonLabel
                ((sdk_call h (SetVolume 1) (sdk_call h (SetMuted False) s))\<lparr>isMuted := False\<rparr>)))"
  by (simp add: togglePlayPause_def)

lemma toggle_pause:
  "currentPlayer s = Some h \<Longrightarrow> isPlaying s \<Longrightarrow> \<not> (isAutoplayRestricted (nav s) \<and> isMuted s) \<Longrightarrow>
   togglePlayPause out now s =
     (if out 0 = Rejects then unhandled_rejection (sdk_call h Pause s) else sdk_call h Pause s)"
  by (auto simp: togglePlayPause_def Let_def)

lemma toggle_unmute_paused:
  "currentPlayer s = Some h \<Longrightarrow> \<not> isPlaying s \<Longrightarrow> isAutoplayRestricted (nav s) \<Longrightarrow> isMuted s \<Longrightarrow>
   togglePlayPause out now s =
     (if out 0 = Rejects then
        (if out 1 = Rejects then unhandled_rejection else id)
          (sdk_call h Play (sdk_call h (SetMuted False) s))
      else if out 1 = Rejects then
        (if out 2 = Rejects then unhandled_rejection else id)
          (sdk_call h Play (sdk_call h (SetVolume 1) (sdk_call h (SetMuted False) s)))
      else if out 2 = Rejects then
        (if out 3 = Rejects then unhandled_rejection else id)
          (sdk_call h Play
             (sdk_call h Play (sdk_call h (SetVolume 1) (sdk_call h (SetMuted False) s))))
      else hideCenterToast now
             (updateMuteButtonLabel
                ((sdk_call h Play (sdk_call h (SetVolume 1) (sdk_call h (SetMuted False) s)))
                   \<lparr>isMuted := False\<rparr>)))"
  by (simp add: togglePlayPause_def Let_def numeral_2_eq_2 numeral_3_eq_3)

lemma toggle_play:
  "currentPlayer s = Some h \<Longrightarrow> \<not> isPlaying s \<Longrightarrow> \<not> (isAutoplayRestricted (nav s) \<and> isMuted s) \<Longrightarrow>
   togglePlayPause out now s = sdk_call h Play s"
  by (auto simp: togglePlayPause_def Let_def)

lemma unhandled_fields [simp]:
  "calls (sdk (unhandled_rejection s)) = calls (sdk s)"
  "isMuted (unhandled_rejection s) = isMuted s"
  "isMuted (sdk_call h c s) = isMuted s"
  "unhandled (sdk (sdk_call h c s)) = unhandled (sdk s)"
  by (simp_all add: unhandled_rejection_def sdk_call_def)

lemma unmuted_calls:
  "calls (sdk (hideCenterToast now (updateMuteButtonLabel (x\<lparr>isMuted := False\<rparr>)))) = calls (sdk x)"
  by simp

lemma unmuted_effect:
  assumes "isMuted s = isMuted x" and "muteBtn s = muteBtn x"
    and "pauseIndicator s = pauseIndicator x" and "toastLockUntil s = toastLockUntil x"
    and "pauseTimeout s = pauseTimeout x" and "timers s = timers x"
  shows "tap_unmuted now s (hideCenterToast now (updateMuteButtonLabel (x\<lparr>isMuted := False\<rparr>)))"
  using assms
  by (auto simp: tap_unmuted_def hideCenterToast_def updateMuteButtonLabel_def toast_visible_def
        clearTimeout_def Let_def split: option.splits)

lemma failed_effect:
  "isMuted s \<Longrightarrow> tap_failed s (sdk_call h c s)"
  "isMuted s \<Longrightarrow> tap_failed s (sdk_call h c (sdk_call h1 c1 s))"
  "isMuted s \<Longrightarrow> tap_failed s (sdk_call h c (sdk_call h1 c1 (sdk_call h2 c2 s)))"
  "isMuted s \<Longrightarrow> tap_failed s (sdk_call h c (sdk_call h1 c1 (sdk_call h2 c2 (sdk_call h3 c3 s))))"
  "tap_failed s x \<Longrightarrow> tap_failed s (unhandled_rejection x)"
  by (simp_all add: tap_failed_def sdk_call_def unhandled_rejection_def)

lemma tap_fields [simp]:
  "isMuted (sdk_call h c s) = isMuted s" "muteBtn (sdk_call h c s) = muteBtn s"
  "pauseIndicator (sdk_call h c s) = pauseIndicator s"
  "toastLockUntil (sdk_call h c s) = toastLockUntil s"
  "pauseTimeout (sdk_call h c s) = pauseTimeout s" "timers (sdk_call h c s) = timers s"
  by (simp_all add: sdk_call_def)


subsection \<open>Preview tiles\<close>

lemma callback_hidden:
  "tile_hidden t \<Longrightarrow> tile_callback cb t = t"
  by (cases cb) (simp_all add: tile_callback_def tile_hidden_def)

lemma step_hidden:
  "stays_hidden [e] \<Longrightarrow> tile_hidden t \<Longrightarrow>
   tile_hidden (tile_step e t) \<and> video_failed (tile_step e t) = video_failed t"
proof (cases e)
  case (TimerFires now tid)
  assume h: "tile_hidden t"
  have h': "tile_hidden (t\<lparr>tile_timers := filter (\<lambda>e. fst e \<noteq> tid) (tile_timers t)\<rparr>)"
    using h by (simp add: tile_hidden_def)
  show ?thesis
    using TimerFires h callback_hidden [OF h']
    by (auto simp: tile_fire_def tile_hidden_def split: option.splits)
next
  case (FrameLoads i now)
  assume "tile_hidden t"
  with FrameLoads show ?thesis
    by (auto simp: iframe_load_def tile_hidden_def split: option.splits)
next
  case (Layout st r v)
  assume "stays_hidden [e]"
  with Layout show ?thesis by (simp add: tile_hidden_def)
next
  case (FrameSized i w h)
  assume "tile_hidden t"
  with FrameSized show ?thesis by (simp add: tile_hidden_def)
qed

lemma run_hidden:
  "stays_hidden evs \<Longrightarrow> tile_hidden t \<Longrightarrow>
   tile_hidden (tile_run evs t) \<and> video_failed (tile_run evs t) = video_failed t"
proof (induction evs arbitrary: t)
  case Nil
  then show ?case by (simp add: tile_run_def)
next
  case (Cons e evs)
  have a: "stays_hidden [e]" and b: "stays_hidden evs"
    using Cons.prems(1) by (cases e; simp)+
  note s = step_hidden [OF a Cons.prems(2)]
  from Cons.IH [OF b conjunct1 [OF s]] s show ?case
    by (simp add: tile_run_def)
qed

lemma create_fields:
  "th_style (createLoopVideoIframe i now t) = th_style t"
  "th_rect (createLoopVideoIframe i now t) = th_rect t"
  "vp (createLoopVideoIframe i now t) = vp t"
  "video_failed (createLoopVideoIframe i now t) = video_failed t"
  by (simp_all add: createLoopVideoIframe_def Let_def split: option.splits)

lemma find_fresh_tile:
  "\<forall>e\<in>set xs. fst e \<noteq> i \<Longrightarrow> find (\<lambda>e. fst e = i) (xs @ [(i, a, b)]) = Some (i, a, b)"
  by (induction xs) auto

lemma create_arms:
  assumes "tid \<noteq> []" "tid \<noteq> ''INVALID_ID_FOR_TESTING''" "tid \<noteq> ''undefined''"
    and fresh: "tile_fresh t"
  shows "armed (tile_nextTimer t) (int now + 5000) (createLoopVideoIframe (Some tid) now t)"
    and "others_clear (next_iframe t) (tile_nextTimer t) (createLoopVideoIframe (Some tid) now t)"
proof -
  have "\<forall>e\<in>set (tile_timers t). fst e \<noteq> tile_nextTimer t"
    using fresh by (auto simp: tile_fresh_def)
  from find_fresh_tile [OF this]
  show "armed (tile_nextTimer t) (int now + 5000) (createLoopVideoIframe (Some tid) now t)"
    using assms(1-3) by (simp add: armed_def createLoopVideoIframe_def Let_def)
  have "\<forall>e\<in>set (iframes t). pv_errorTimeout (snd e) \<noteq> tile_nextTimer t"
    using fresh by (auto simp: tile_fresh_def)
  then show "others_clear (next_iframe t) (tile_nextTimer t)
               (createLoopVideoIframe (Some tid) now t)"
    using assms(1-3) by (auto simp: others_clear_def createLoopVideoIframe_def Let_def)
qed

lemma find_filter_other:
  "i \<noteq> j \<Longrightarrow> find (\<lambda>e. fst e = i) (filter (\<lambda>e. fst e \<noteq> j) xs) = find (\<lambda>e. fst e = i) xs"
  by (induction xs) auto

lemma find_append_found: "find P xs = Some x \<Longrightarrow> find P (xs @ ys) = Some x"
  by (induction xs) auto

lemma callback_timers: "tile_timers (tile_callback cb t) = tile_timers t"
  by (cases cb) (auto simp: tile_callback_def hideStaticImageOnMobile_def Let_def split: option.splits list.splits)

lemma callback_iframes: "iframes (tile_callback cb t) = iframes t"
  by (cases cb) (auto simp: tile_callback_def hideStaticImageOnMobile_def Let_def split: option.splits list.splits)

lemma fire_iframes: "iframes (tile_fire now i t) = iframes t"
  by (auto simp: tile_fire_def callback_iframes split: option.splits)

lemma step_armed:
  assumes a: "armed tid due t" and o: "others_clear i0 tid t"
    and n: "never_loads i0 [e]" and b: "all_before (nat due) [e]" and d: "0 \<le> due"
  shows "armed tid due (tile_step e t) \<and> others_clear i0 tid (tile_step e t)"
proof (cases e)
  case (TimerFires now i)
  from b TimerFires d have lt: "int now < due" by simp
  have oc: "others_clear i0 tid (tile_step e t)"
    using o TimerFires by (simp add: others_clear_def fire_iframes)
  have "armed tid due (tile_step e t)"
  proof (cases "i = tid")
    case True
    with a lt TimerFires show ?thesis by (simp add: armed_def tile_fire_def)
  next
    case False
    then have "find (\<lambda>e. fst e = tid) (filter (\<lambda>e. fst e \<noteq> i) (tile_timers t))
               = find (\<lambda>e. fst e = tid) (tile_timers t)"
      using find_filter_other [of tid i] by simp
    with a TimerFires show ?thesis
      by (auto simp: armed_def tile_fire_def callback_timers split: option.splits)
  qed
  with oc show ?thesis by simp
next
  case (FrameLoads j now)
  with n have ne: "j \<noteq> i0" by simp
  show ?thesis
  proof (cases "map_of (iframes t) j")
    case None
    with FrameLoads a o show ?thesis by (simp add: iframe_load_def)
  next
    case (Some fr)
    then have "(j, fr) \<in> set (iframes t)" by (rule map_of_SomeD)
    with o ne have c: "tid \<noteq> pv_errorTimeout fr" by (auto simp: others_clear_def)
    have "find (\<lambda>e. fst e = tid) (filter (\<lambda>e. fst e \<noteq> pv_errorTimeout fr) (tile_timers t))
          = Some (tid, due, ErrorTimeout)"
      using a find_filter_other [OF c, of "tile_timers t"] by (simp add: armed_def)
    from find_append_found [OF this]
    have "armed tid due (tile_step e t)"
      using FrameLoads Some by (simp add: armed_def iframe_load_def)
    moreover have "others_clear i0 tid (tile_step e t)"
      using FrameLoads Some o by (simp add: others_clear_def iframe_load_def)
    ultimately show ?thesis by simp
  qed
next
  case (Layout st r v)
  with a o show ?thesis by (simp add: armed_def others_clear_def)
next
  case (FrameSized i w h)
  have "armed tid due (tile_step e t)"
    using a FrameSized by (simp add: armed_def)
  moreover have "others_clear i0 tid (tile_step e t)"
    using o FrameSized by (fastforce simp: others_clear_def split: if_splits)
  ultimately show ?thesis by simp
qed

lemma run_armed:
  "armed tid due t \<Longrightarrow> others_clear i0 tid t \<Longrightarrow> never_loads i0 evs \<Longrightarrow>
   all_before (nat due) evs \<Longrightarrow> 0 \<le> due \<Longrightarrow>
   armed tid due (tile_run evs t)"
proof (induction evs arbitrary: t)
  case Nil
  then show ?case by (simp add: tile_run_def)
next
  case (Cons e evs)
  have a: "never_loads i0 [e]" "never_loads i0 evs" "all_before (nat due) [e]"
    "all_before (nat due) evs"
    using Cons.prems(3,4) by (cases e; simp)+
  note s = step_armed [OF Cons.prems(1,2) a(1) a(3) Cons.prems(5)]
  from Cons.IH [OF conjunct1 [OF s] conjunct2 [OF s] a(2) a(4) Cons.prems(5)]
  show ?case by (simp add: tile_run_def)
qed

lemma fire_armed:
  "armed tid due u \<Longrightarrow> due \<le> int now \<Longrightarrow>
   video_failed (tile_fire now tid u) = (video_failed u \<or> \<not> tile_hidden u)"
  by (auto simp: armed_def tile_fire_def tile_callback_def tile_hidden_def)

lemma tile_fresh_create: "tile_fresh t \<Longrightarrow> tile_fresh (createLoopVideoIframe i now t)"
  by (auto simp: tile_fresh_def createLoopVideoIframe_def Let_def less_Suc_eq split: option.splits)

lemma tile_fresh_step: "tile_fresh t \<Longrightarrow> tile_fresh (tile_step e t)"
proof (cases e)
  case (TimerFires now i)
  assume "tile_fresh t"
  with TimerFires show ?thesis
    by (auto simp: tile_fresh_def tile_fire_def callback_timers callback_iframes
          tile_callback_def hideStaticImageOnMobile_def Let_def
          split: option.splits tile_cb.splits list.splits)
next
  case (FrameLoads i now)
  assume "tile_fresh t"
  with FrameLoads show ?thesis
    by (auto simp: tile_fresh_def iframe_load_def less_Suc_eq split: option.splits)
next
  case (Layout st r v)
  assume "tile_fresh t"
  with Layout show ?thesis by (simp add: tile_fresh_def)
next
  case (FrameSized i w h)
  assume "tile_fresh t"
  with FrameSized show ?thesis by (fastforce simp: tile_fresh_def split: if_splits)
qed

lemma tile_fresh_shown: "tile_fresh shown_tile"
  by (simp add: tile_fresh_def shown_tile_def)

subsection \<open>Offsets written to and read from a style string\<close>

lemma digit_char_digit: "d < 10 \<Longrightarrow> is_digit (digit_char d) \<and> digit_val (digit_char d) = d"
proof -
  assume "d < 10"
  then have "d \<in> {0, 1, 2, 3, 4, 5, 6, 7, 8, 9}" by auto
  then show ?thesis
    by (elim insertE emptyE) (simp_all add: digit_char_def is_digit_def digit_val_def)
qed

lemma show_nat_digits: "\<forall>c\<in>set (show_nat n). is_digit c"
proof (induction n rule: show_nat.induct)
  case (1 n)
  show ?case
  proof (cases "n < 10")
    case True
    then show ?thesis using digit_char_digit [of n] by (subst show_nat.simps) simp
  next
    case False
    then show ?thesis
      using 1 digit_char_digit [of "n mod 10"] by (subst show_nat.simps) auto
  qed
qed

lemma show_nat_nonempty: "show_nat n \<noteq> []"
  by (subst show_nat.simps) simp

lemma digits_val_snoc: "digits_val (ds @ [c]) = 10 * digits_val ds + digit_val c"
  by (simp add: digits_val_def)

lemma digits_val_show_nat: "digits_val (show_nat n) = n"
proof (induction n rule: show_nat.induct)
  case (1 n)
  show ?case
  proof (cases "n < 10")
    case True
    then show ?thesis
      using digit_char_digit [of n] by (subst show_nat.simps) (simp add: digits_val_def)
  next
    case False
    then have "digits_val (show_nat n) = 10 * (n div 10) + n mod 10"
      using 1 digit_char_digit [of "n mod 10"]
      by (subst show_nat.simps) (simp add: digits_val_snoc)
    then show ?thesis by simp
  qed
qed

lemma js_toString_whole: "js_toString (of_nat n) = show_nat n"
  by (simp add: js_toString_def Let_def)

lemma takeWhile_digits_px: "takeWhile is_digit (show_nat n @ ''px'') = show_nat n"
proof -
  have "\<not> is_digit CHR ''p''" by (simp add: is_digit_def)
  then show ?thesis using show_nat_digits [of n]
    by (simp add: takeWhile_append)
qed

lemma parseInt_top_whole:
  "parseInt (CHR ''-'' # js_toString (of_nat n) @ ''px'') = Some (- int n)"
  using show_nat_nonempty [of n]
  by (simp add: parseInt_def js_toString_whole is_space_def takeWhile_digits_px
        digits_val_show_nat Let_def)

lemma scroll_view_display [simp]:
  "scroll_view (hideControls s) = scroll_view s"
  "scroll_view (showControls s) = scroll_view s"
  "scroll_view (showLoading now s) = scroll_view s"
  "scroll_view (hideLoading s) = scroll_view s"
  "scroll_view (showError s) = scroll_view s"
  "scroll_view (hideError s) = scroll_view s"
  "scroll_view (sdk_call h c s) = scroll_view s"
  "scroll_view (setTimeout cb dl now s) = scroll_view s"
  by (simp_all add: scroll_view_def display_defs Let_def split: option.splits)

lemma scroll_view_issue [simp]:
  "scroll_view (issue_until_throw out k h cs s) = scroll_view s"
  by (induction cs arbitrary: k s) auto

lemma scroll_view_updates [simp]:
  "scroll_view (videoFrame_update f x) = scroll_view x"
  "scroll_view (allowLoader_update g x) = scroll_view x"
  "scroll_view (currentPlayer_update p x) = scroll_view x"
  "scroll_view (sdk_update w x) = scroll_view x"
  by (simp_all add: scroll_view_def)

lemma scroll_view_loadVideo: "scroll_view (loadVideo v a ctor out now s) = scroll_view s"
  by (simp add: loadVideo_def new_Player_def Let_def split: option.splits)

lemma loadVideo_scroll_fields:
  "page (loadVideo v a ctor out now s) = page s"
  "hadSmoother (loadVideo v a ctor out now s) = hadSmoother s"
  "smoother (loadVideo v a ctor out now s) = smoother s"
  "savedScrollY (loadVideo v a ctor out now s) = savedScrollY s"
  "savedSmootherY (loadVideo v a ctor out now s) = savedSmootherY s"
  "prevScrollBehavior (loadVideo v a ctor out now s) = prevScrollBehavior s"
  using scroll_view_loadVideo [of v a ctor out now s] by (simp_all add: scroll_view_def)

lemma closeLightbox_page:
  "page (closeLightbox dout now s) = page (scroll_unlock (s\<lparr>lightbox_active := False\<rparr>))"
  by (simp add: closeLightbox_def player_destroyed_def unhandled_rejection_def Let_def
        split: option.splits)

subsection \<open>Pointer events in special states\<close>

lemma nan_arith:
  "js_div 0 0 = NaN" "Math_min (Fin 1) NaN = NaN" "Math_max (Fin 0) NaN = NaN"
  "js_mul NaN 120 = NaN" "js_mul NaN 100 = NaN"
  by code_simp+

lemma formatTime_NaN: "formatTime NaN = ''NaN:NaN''"
  by code_simp

lemma press_without_duration:
  "videoDuration s = 0 \<Longrightarrow> on_timeline_event (MouseDown x) s = startDragging s"
  by (simp add: on_timeline_event_def handleTimelineDrag_def startDragging_def
        split: option.splits)

section \<open>Embed addresses\<close>

text \<open>
  Claim C5. The embed addresses carry exactly the query strings of the specification.
  A preview frame which \<open>createLoopVideoIframe\<close> adds for an accepted identifier has the
  address \<open>https://player.vimeo.com/video/<id>\<close> followed by
  \<open>?background=1&autoplay=1&loop=1&muted=1&controls=0&title=0&byline=0&portrait=0&playsinline=1\<close>.
  Whenever \<open>loadVideo\<close> gets as far as setting the frame's address (there is a frame and
  the identifier is not the test sentinel), that address ends in
  \<open>?background=1&autoplay=0&muted=0&controls=0&dnt=1&transparent=0&playsinline=1\<close> on an
  autoplay-restricted platform and in
  \<open>?autoplay=0&muted=0&controls=0&dnt=1&transparent=0&playsinline=1\<close> on any other. For an
  identifier without a question mark these strings are the query of the address.
\<close>

theorem embed_urls_exact:
  "(tid \<noteq> [] \<and> tid \<noteq> ''INVALID_ID_FOR_TESTING'' \<and> tid \<noteq> ''undefined'' \<longrightarrow>
      map (pv_src \<circ> snd) (iframes (createLoopVideoIframe (Some tid) now t)) =
        (let u = ''https://player.vimeo.com/video/'' @ tid
                 @ ''?background=1&autoplay=1&loop=1&muted=1&controls=0&title=0&byline=0&portrait=0&playsinline=1''
         in if has_img t then u # map (pv_src \<circ> snd) (iframes t)
            else map (pv_src \<circ> snd) (iframes t) @ [u]))
   \<and> (videoFrame s \<noteq> None \<and> vimeoId \<noteq> Some ''INVALID_VIDEO_ID_FOR_TESTING'' \<longrightarrow>
        map_option src (videoFrame (loadVideo vimeoId auto ctor out now' s)) =
          Some (''https://player.vimeo.com/video/'' @ interpolate vimeoId
                @ (if isAutoplayRestricted (nav s)
                   then ''?background=1&autoplay=0&muted=0&controls=0&dnt=1&transparent=0&playsinline=1''
                   else ''?autoplay=0&muted=0&controls=0&dnt=1&transparent=0&playsinline=1'')))
   \<and> (CHR ''?'' \<notin> set tid \<longrightarrow>
        url_query (previewUrl tid) =
          ''background=1&autoplay=1&loop=1&muted=1&controls=0&title=0&byline=0&portrait=0&playsinline=1'')
   \<and> (CHR ''?'' \<notin> set (interpolate vimeoId) \<longrightarrow>
        url_query (embedUrl True vimeoId) =
          ''background=1&autoplay=0&muted=0&controls=0&dnt=1&transparent=0&playsinline=1''
        \<and> url_query (embedUrl False vimeoId) =
          ''autoplay=0&muted=0&controls=0&dnt=1&transparent=0&playsinline=1'')"
proof (intro conjI impI)
  assume "tid \<noteq> [] \<and> tid \<noteq> ''INVALID_ID_FOR_TESTING'' \<and> tid \<noteq> ''undefined''"
  then show "map (pv_src \<circ> snd) (iframes (createLoopVideoIframe (Some tid) now t)) =
        (let u = ''https://player.vimeo.com/video/'' @ tid
                 @ ''?background=1&autoplay=1&loop=1&muted=1&controls=0&title=0&byline=0&portrait=0&playsinline=1''
         in if has_img t then u # map (pv_src \<circ> snd) (iframes t)
            else map (pv_src \<circ> snd) (iframes t) @ [u])"
    using createLoopVideoIframe_src [of tid now t] by (simp add: previewUrl_def)
next
  assume "videoFrame s \<noteq> None \<and> vimeoId \<noteq> Some ''INVALID_VIDEO_ID_FOR_TESTING''"
  then have fr: "videoFrame s \<noteq> None" and ok: "vimeoId \<noteq> Some ''INVALID_VIDEO_ID_FOR_TESTING''"
    by simp_all
  show "map_option src (videoFrame (loadVideo vimeoId auto ctor out now' s)) =
          Some (''https://player.vimeo.com/video/'' @ interpolate vimeoId
                @ (if isAutoplayRestricted (nav s)
                   then ''?background=1&autoplay=0&muted=0&controls=0&dnt=1&transparent=0&playsinline=1''
                   else ''?autoplay=0&muted=0&controls=0&dnt=1&transparent=0&playsinline=1''))"
    by (simp add: loadVideo_src [OF fr ok] embedUrl_def)
next
  assume "CHR ''?'' \<notin> set tid"
  then show "url_query (previewUrl tid) =
      ''background=1&autoplay=1&loop=1&muted=1&controls=0&title=0&byline=0&portrait=0&playsinline=1''"
    using url_query_build [of "''https://player.vimeo.com/video/'' @ tid"]
    by (simp add: previewUrl_def)
next
  assume "CHR ''?'' \<notin> set (interpolate vimeoId)"
  then show "url_query (embedUrl True vimeoId) =
      ''background=1&autoplay=0&muted=0&controls=0&dnt=1&transparent=0&playsinline=1''"
    using url_query_build [of "''https://player.vimeo.com/video/'' @ interpolate vimeoId"]
    by (simp add: embedUrl_def)
next
  assume "CHR ''?'' \<notin> set (interpolate vimeoId)"
  then show "url_query (embedUrl False vimeoId) =
      ''autoplay=0&muted=0&controls=0&dnt=1&transparent=0&playsinline=1''"
    using url_query_build [of "''https://player.vimeo.com/video/'' @ interpolate vimeoId"]
    by (simp add: embedUrl_def)
qed

text \<open>
  The tile of the specification's scenario (main video 123, preview 456) on a desktop
  browser: the preview frame and the modal's frame get these two addresses.
\<close>

theorem embed_urls_exact_witness:
  "map (pv_src \<circ> snd) (iframes (createLoopVideoIframe (Some ''456'') 0 shown_tile)) =
     [''https://player.vimeo.com/video/456?background=1&autoplay=1&loop=1&muted=1&controls=0&title=0&byline=0&portrait=0&playsinline=1'']
   \<and> map_option src
        (videoFrame (loadVideo (Some ''123'') True Resolves (always Resolves) 0
                       (constructed (plain_page 0) desktop_nav))) =
       Some ''https://player.vimeo.com/video/123?autoplay=0&muted=0&controls=0&dnt=1&transparent=0&playsinline=1''
   \<and> url_query (previewUrl ''456'') =
       ''background=1&autoplay=1&loop=1&muted=1&controls=0&title=0&byline=0&portrait=0&playsinline=1''
   \<and> url_query (embedUrl True (Some ''123'')) =
       ''background=1&autoplay=0&muted=0&controls=0&dnt=1&transparent=0&playsinline=1''"
  using embed_urls_exact [of "''456''" 0 shown_tile "constructed (plain_page 0) desktop_nav"
      "Some ''123''" True Resolves "always Resolves" 0]
    desktop_not_restricted
  by (simp add: constructed_def shown_tile_def interpolate_def)

section \<open>One player at a time\<close>

text \<open>
  Claim C1. In every session from the start of the controller's lifetime, whatever the
  order of its events (also two clicks on tiles with no close in between, and a close
  whose \<open>destroy()\<close> throws): after each event at most one player handle is live, and
  it is the one \<open>this.currentPlayer\<close> holds, so no handle leaks. A handle becomes live
  only by being constructed, and one is
  constructed only when none is live: the handle made earlier was destroyed before, and
  while a player is attached to the frame the constructor returns that player. After a
  close whose \<open>destroy()\<close> returns, no handle is live, \<open>currentPlayer\<close> is null, and the
  last call the SDK received is \<open>destroy()\<close> on the handle held before.
\<close>

theorem one_live_player:
  assumes "at_start s"
  shows "length (live (sdk (session_run (take n evs) s))) \<le> 1
    \<and> live (sdk (session_run (take n evs) s)) =
        (case currentPlayer (session_run (take n evs) s) of None \<Rightarrow> [] | Some h \<Rightarrow> [h])
    \<and> (n < length evs
         \<and> nextHandle (sdk (session_run (take (Suc n) evs) s))
             = nextHandle (sdk (session_run (take n evs) s)) \<longrightarrow>
         set (live (sdk (session_run (take (Suc n) evs) s)))
           \<subseteq> set (live (sdk (session_run (take n evs) s))))
    \<and> (n < length evs
         \<and> nextHandle (sdk (session_run (take (Suc n) evs) s))
             \<noteq> nextHandle (sdk (session_run (take n evs) s)) \<longrightarrow>
         live (sdk (session_run (take n evs) s)) = []
         \<and> live (sdk (session_run (take (Suc n) evs) s))
             = [nextHandle (sdk (session_run (take n evs) s))])
    \<and> (n < length evs \<and> evs ! n = Close dout now \<and> dout \<noteq> Throws \<longrightarrow>
         live (sdk (session_run (take (Suc n) evs) s)) = []
         \<and> currentPlayer (session_run (take (Suc n) evs) s) = None
         \<and> (\<forall>h. currentPlayer (session_run (take n evs) s) = Some h \<longrightarrow>
               calls (sdk (session_run (take (Suc n) evs) s))
                 = calls (sdk (session_run (take n evs) s)) @ [(h, Destroy)]))"
proof -
  let ?u = "session_run (take n evs) s"
  let ?v = "session_run (take (Suc n) evs) s"
  have "handles_tidy s"
    using start_tidy [OF assms] by (simp add: session_tidy_def)
  then have tu: "handles_tidy ?u"
    by (rule run_handles)
  have p2: "live (sdk ?u) = (case currentPlayer ?u of None \<Rightarrow> [] | Some h \<Rightarrow> [h])"
    using tu by (simp add: handles_tidy_def)
  have p1: "length (live (sdk ?u)) \<le> 1"
    unfolding p2 by (simp split: option.splits)
  have st: "nextHandle (sdk ?v) = nextHandle (sdk ?u) \<and> set (live (sdk ?v)) \<subseteq> set (live (sdk ?u))
       \<or> live (sdk ?u) = [] \<and> live (sdk ?v) = [nextHandle (sdk ?u)]
         \<and> nextHandle (sdk ?v) = Suc (nextHandle (sdk ?u))"
    if "n < length evs"
    using step_handles [OF tu, of "evs ! n"] run_take_Suc [OF that, of s] by simp
  have p3: "set (live (sdk ?v)) \<subseteq> set (live (sdk ?u))"
    if "n < length evs" "nextHandle (sdk ?v) = nextHandle (sdk ?u)"
    using st [OF that(1)] that(2) by auto
  have p4: "live (sdk ?u) = [] \<and> live (sdk ?v) = [nextHandle (sdk ?u)]"
    if "n < length evs" "nextHandle (sdk ?v) \<noteq> nextHandle (sdk ?u)"
    using st [OF that(1)] that(2) by auto
  have p5: "live (sdk ?v) = [] \<and> currentPlayer ?v = None
      \<and> (\<forall>h. currentPlayer ?u = Some h \<longrightarrow> calls (sdk ?v) = calls (sdk ?u) @ [(h, Destroy)])"
    if "n < length evs" "evs ! n = Close dout now" "dout \<noteq> Throws"
  proof -
    have v: "?v = closeLightbox dout now ?u"
      using run_take_Suc [OF that(1), of s] that(2) by simp
    show ?thesis
    proof (cases "currentPlayer ?u")
      case None
      then show ?thesis
        using closeLightbox_none(1) [OF None, of dout now] p2 v
        by (simp add: handle_view_def)
    next
      case (Some h)
      then show ?thesis
        using closeLightbox_destroyed(1,2) [OF Some that(3), of now] p2 v
        by (simp add: handle_view_def)
    qed
  qed
  show ?thesis
    using p1 p2 p3 p4 p5 by blast
qed

text \<open>
  The demo session, from the controller as constructed: after the two clicks in a row
  one handle is live, and after the last close (the eighth event) none.
\<close>

theorem one_live_player_witness:
  "at_start (constructed (plain_page 0) desktop_nav)
   \<and> length (live (sdk (session_run (take 2 demo_session)
                          (constructed (plain_page 0) desktop_nav)))) \<le> 1
   \<and> live (sdk (session_run (take 8 demo_session) (constructed (plain_page 0) desktop_nav))) = []
   \<and> currentPlayer (session_run (take 8 demo_session) (constructed (plain_page 0) desktop_nav))
       = None"
proof -
  have h: "at_start (constructed (plain_page 0) desktop_nav)"
    by (rule constructed_start)
  have e: "7 < length demo_session \<and> demo_session ! 7 = Close Rejects 6000 \<and> Rejects \<noteq> Throws"
    by (simp add: demo_session_def)
  show ?thesis
    using one_live_player [OF h, of 2 demo_session Resolves 0]
      one_live_player [OF h, of 7 demo_session Rejects 6000] h e
    by (simp split: option.splits)
qed

section \<open>The seek fraction\<close>





section \<open>Timeline events without a player or a duration\<close>




section \<open>The toast's lock window\<close>

text \<open>
  Claim C2. After \<open>show(message, durationMs)\<close> at time \<open>T\<close> the toast is visible; every
  \<open>hide()\<close> at a time \<open>t < T + durationMs\<close> is a no-op, and so is any number of them; the
  timer armed by \<open>show\<close> does not run before \<open>T + durationMs\<close>, and when it runs then
  (no further \<open>show\<close> having happened) the toast is hidden; a \<open>hide()\<close> at a time
  \<open>t \<ge> T + durationMs\<close> clears the pending timer and hides at once. The toast element is
  assumed to exist, and timer identifiers to be handed out in increasing order (every
  pending identifier is below the next one), as \<open>setTimeout\<close> does; every handler of the
  controller keeps it so.
\<close>

theorem toast_lock_window:
  assumes "pauseIndicator s \<noteq> None" and "timers_fresh s"
  shows "toast_visible (showCenterToast m d T s)
    \<and> (int t < int T + d \<longrightarrow>
         hideCenterToast t (showCenterToast m d T s) = showCenterToast m d T s)
    \<and> ((\<forall>u\<in>set ts. int u < int T + d) \<longrightarrow>
         fold hideCenterToast ts (showCenterToast m d T s) = showCenterToast m d T s)
    \<and> (int t < int T + max 0 d \<longrightarrow>
         fire_timer t (nextTimer s) (showCenterToast m d T s) = showCenterToast m d T s)
    \<and> ((\<forall>u\<in>set ts. int u < int T + d) \<and> int T + max 0 d \<le> int t \<longrightarrow>
         \<not> toast_visible
             (fire_timer t (nextTimer s) (fold hideCenterToast ts (showCenterToast m d T s))))
    \<and> (int T + d \<le> int t \<longrightarrow>
         \<not> toast_visible (hideCenterToast t (showCenterToast m d T s))
         \<and> pauseTimeout (hideCenterToast t (showCenterToast m d T s)) = None
         \<and> nextTimer s \<notin> fst ` set (timers (hideCenterToast t (showCenterToast m d T s))))"
  using show_visible [OF assms(1)] hide_before_deadline [of t T d m s]
    hides_before_deadline [of ts T d m s]
    timer_not_early [OF assms(1) assms(2) [unfolded timers_fresh_def], of t T d m]
    timer_hides [OF assms(1) assms(2) [unfolded timers_fresh_def], of T d t m]
    hide_after_deadline [OF assms(1), of T d t m]
  by (intro conjI impI) simp_all

text \<open>
  The specification's example: a toast shown for 1000 ms at \<open>T = 5000\<close> is still visible
  after \<open>hide()\<close> at 5500 and is hidden by its timer (identifier 1) at 6000.
\<close>

theorem toast_lock_window_witness:
  "pauseIndicator (constructed (plain_page 0) desktop_nav) \<noteq> None
   \<and> toast_visible (hideCenterToast 5500 (showCenterToast ''Paused'' 1000 5000
                                            (constructed (plain_page 0) desktop_nav)))
   \<and> \<not> toast_visible (fire_timer 6000 1 (hideCenterToast 5500
          (showCenterToast ''Paused'' 1000 5000 (constructed (plain_page 0) desktop_nav))))
   \<and> \<not> toast_visible (hideCenterToast 6000 (showCenterToast ''Paused'' 1000 5000
                                            (constructed (plain_page 0) desktop_nav)))"
proof -
  have a: "pauseIndicator (constructed (plain_page 0) desktop_nav) \<noteq> None"
    by (simp add: constructed_def)
  have b: "timers_fresh (constructed (plain_page 0) desktop_nav)"
    by (simp add: timers_fresh_def constructed_def)
  have n: "nextTimer (constructed (plain_page 0) desktop_nav) = 1"
    by (simp add: constructed_def)
  show ?thesis
    using toast_lock_window [OF a b, of "''Paused''" 1000 5000 5500 "[5500]"]
      toast_lock_window [OF a b, of "''Paused''" 1000 5000 6000 "[5500]"] a n
    by simp
qed

section \<open>A rejected ready promise\<close>

text \<open>
  Claim C7, as amended. When the \<open>ready()\<close> promise of a player rejects, \<open>showError\<close>
  runs: the error placeholder (when the element exists) is shown and the controls are
  hidden at that moment. The \<open>loadVideo\<close> call that constructed the player has also armed
  a timer which shows the controls 300 ms after the call. When no such timer is pending
  any more, the controls stay hidden whatever timer runs next; when one is still pending
  and runs, the controls are shown again while the error placeholder stays.
\<close>

theorem ready_rejection_shows_error:
  assumes "h \<in> set (readyWaiting (sdk s))"
  shows "errorPlaceholder (ready_rejected h s) = map_option (\<lambda>_. True) (errorPlaceholder s)
    \<and> controls (ready_rejected h s) = map_option (\<lambda>_. ''none'') (controls s)
    \<and> ((\<forall>e\<in>set (timers (ready_rejected h s)). snd (snd e) \<noteq> CbShowControls) \<longrightarrow>
         controls (fire_timer t tid (ready_rejected h s)) = map_option (\<lambda>_. ''none'') (controls s))
    \<and> (find (\<lambda>e. fst e = tid) (timers (ready_rejected h s)) = Some (tid, due, CbShowControls)
          \<and> due \<le> int t \<longrightarrow>
         controls (fire_timer t tid (ready_rejected h s)) = map_option (\<lambda>_. []) (controls s)
         \<and> errorPlaceholder (fire_timer t tid (ready_rejected h s))
             = map_option (\<lambda>_. True) (errorPlaceholder s))
    \<and> (constructs v ctor s0 \<longrightarrow>
         (\<exists>p. currentPlayer (loadVideo v a ctor out now s0) = Some p
              \<and> p \<in> set (readyWaiting (sdk (loadVideo v a ctor out now s0))))
         \<and> (\<exists>i. (i, int now + 300, CbShowControls) \<in> set (timers (loadVideo v a ctor out now s0))))"
  using rejected_effect [OF assms] fire_no_reveal [of "ready_rejected h s" t tid]
    fire_reveal [of tid "ready_rejected h s" due t] loadVideo_arms [of v ctor s0 a out now]
  by (intro conjI impI) (simp_all add: option.map_comp comp_def)

text \<open>The demo tile's player, waiting to become ready, rejects.\<close>

theorem ready_rejection_shows_error_witness:
  "0 \<in> set (readyWaiting (sdk load_pending))
   \<and> errorPlaceholder (ready_rejected 0 load_pending) = Some True
   \<and> controls (ready_rejected 0 load_pending) = Some ''none''"
proof -
  have w: "0 \<in> set (readyWaiting (sdk load_pending))"
    by code_simp
  have e: "errorPlaceholder load_pending = Some False \<and> controls load_pending = Some ''none''"
    by code_simp
  show ?thesis
    using ready_rejection_shows_error [OF w] w e by simp
qed

text \<open>
  The claim as it stands fails in "remain hidden": the tile is clicked at 1000, the promise
  rejects before 1300 and hides the controls, and at 1300 the timer of \<open>loadVideo\<close>
  (identifier 2) shows them again beside the error placeholder.
\<close>

theorem early_rejection_controls_return:
  "controls (ready_rejected 0 load_pending) = Some ''none''
   \<and> controls (fire_timer 1300 2 (ready_rejected 0 load_pending)) = Some []
   \<and> errorPlaceholder (fire_timer 1300 2 (ready_rejected 0 load_pending)) = Some True"
  by code_simp

section \<open>Play and pause on a tap\<close>




section \<open>The failure timer of a preview\<close>

text \<open>
  Claim C8. For a preview frame created for a tile at time \<open>now\<close> (accepted identifier,
  timer identifiers handed out in increasing order): if the frame does not fire \<open>load\<close>
  before \<open>now + 5000\<close> and the tile is visible when the failure timer runs at
  \<open>now + 5000\<close>, the tile has the class \<open>video-failed\<close> afterwards; if the tile is hidden at
  that check, the timer leaves the class as it was; a tile that is hidden at creation and
  stays hidden through whatever timers, \<open>load\<close> events and layout changes follow is never
  marked failed by them; and the timer does not run before \<open>now + 5000\<close>. Other timers of
  the tile may run and other frames of it may load in the meantime.
\<close>

theorem preview_failure_timer:
  assumes "tid \<noteq> [] \<and> tid \<noteq> ''INVALID_ID_FOR_TESTING'' \<and> tid \<noteq> ''undefined''"
    and "tile_fresh t"
  shows "(never_loads (next_iframe t) evs \<and> all_before (now + 5000) evs
           \<and> isElementVisible (vp (tile_run evs (createLoopVideoIframe (Some tid) now t)))
                (Some (th_style (tile_run evs (createLoopVideoIframe (Some tid) now t)),
                       th_rect (tile_run evs (createLoopVideoIframe (Some tid) now t)))) \<longrightarrow>
          video_failed (tile_fire (now + 5000) (tile_nextTimer t)
                          (tile_run evs (createLoopVideoIframe (Some tid) now t))))
    \<and> (never_loads (next_iframe t) evs \<and> all_before (now + 5000) evs
           \<and> \<not> isElementVisible (vp (tile_run evs (createLoopVideoIframe (Some tid) now t)))
                (Some (th_style (tile_run evs (createLoopVideoIframe (Some tid) now t)),
                       th_rect (tile_run evs (createLoopVideoIframe (Some tid) now t)))) \<longrightarrow>
          video_failed (tile_fire (now + 5000) (tile_nextTimer t)
                          (tile_run evs (createLoopVideoIframe (Some tid) now t)))
            = video_failed (tile_run evs (createLoopVideoIframe (Some tid) now t)))
    \<and> (stays_hidden evs \<and> \<not> isElementVisible (vp t) (Some (th_style t, th_rect t))
           \<and> \<not> video_failed t \<longrightarrow>
          \<not> video_failed (tile_run evs (createLoopVideoIframe (Some tid) now t)))
    \<and> (k < now + 5000 \<longrightarrow>
          tile_fire k (tile_nextTimer t) (createLoopVideoIframe (Some tid) now t)
            = createLoopVideoIframe (Some tid) now t)"
proof -
  let ?c = "createLoopVideoIframe (Some tid) now t"
  have ar: "armed (tile_nextTimer t) (int now + 5000) ?c"
    and oc: "others_clear (next_iframe t) (tile_nextTimer t) ?c"
    using create_arms [of tid t now] assms by simp_all
  have run: "armed (tile_nextTimer t) (int now + 5000) (tile_run evs ?c)"
    if "never_loads (next_iframe t) evs" "all_before (now + 5000) evs"
  proof -
    have n: "nat (int now + 5000) = now + 5000" by simp
    show ?thesis using run_armed [OF ar oc that(1)] that(2) n by simp
  qed
  have fire: "video_failed (tile_fire (now + 5000) (tile_nextTimer t) (tile_run evs ?c))
      = (video_failed (tile_run evs ?c) \<or> \<not> tile_hidden (tile_run evs ?c))"
    if "never_loads (next_iframe t) evs" "all_before (now + 5000) evs"
    using fire_armed [OF run [OF that], of "now + 5000"] by simp
  have hid: "\<not> video_failed (tile_run evs ?c)"
    if "stays_hidden evs" "\<not> isElementVisible (vp t) (Some (th_style t, th_rect t))"
      "\<not> video_failed t"
  proof -
    have "tile_hidden ?c" using that(2) by (simp add: tile_hidden_def create_fields)
    from run_hidden [OF that(1) this] that(3) show ?thesis by (simp add: create_fields)
  qed
  have early: "tile_fire k (tile_nextTimer t) ?c = ?c" if "k < now + 5000"
    using ar that by (simp add: armed_def tile_fire_def)
  show ?thesis using fire hid early by (auto simp: tile_hidden_def)
qed

text \<open>
  A visible tile whose preview never loads is marked at 5000 (an attempt at 4999 does
  nothing); a tile with \<open>display: none\<close> is not marked by its failure timer nor by the
  check that follows a \<open>load\<close> event.
\<close>

theorem preview_failure_timer_witness:
  "video_failed
     (tile_fire 5000 1
        (tile_run [TimerFires 4999 1] (createLoopVideoIframe (Some ''456'') 0 shown_tile)))
   \<and> \<not> video_failed
         (tile_run [TimerFires 5000 1, FrameLoads 0 6000, TimerFires 7000 2]
            (createLoopVideoIframe (Some ''456'') 0 hidden_tile))"
proof -
  have i: "''456'' \<noteq> [] \<and> ''456'' \<noteq> ''INVALID_ID_FOR_TESTING'' \<and> ''456'' \<noteq> ''undefined''"
    by simp
  have f1: "tile_fresh shown_tile"
    by (simp add: tile_fresh_def shown_tile_def)
  have f2: "tile_fresh hidden_tile"
    by (simp add: tile_fresh_def hidden_tile_def shown_tile_def)
  have n: "tile_nextTimer shown_tile = 1"
    by (simp add: shown_tile_def)
  have v: "isElementVisible
             (vp (tile_run [TimerFires 4999 1] (createLoopVideoIframe (Some ''456'') 0 shown_tile)))
             (Some (th_style (tile_run [TimerFires 4999 1]
                                (createLoopVideoIframe (Some ''456'') 0 shown_tile)),
                    th_rect (tile_run [TimerFires 4999 1]
                               (createLoopVideoIframe (Some ''456'') 0 shown_tile))))"
    by code_simp
  have h: "\<not> isElementVisible (vp hidden_tile) (Some (th_style hidden_tile, th_rect hidden_tile))
           \<and> \<not> video_failed hidden_tile"
    by code_simp
  have e1: "never_loads (next_iframe shown_tile) [TimerFires 4999 1]
            \<and> all_before (0 + 5000) [TimerFires 4999 1]"
    by simp
  have e2: "stays_hidden [TimerFires 5000 1, FrameLoads 0 6000, TimerFires 7000 2]"
    by simp
  show ?thesis
    using preview_failure_timer [OF i f1, of "[TimerFires 4999 1]" 0 0]
      preview_failure_timer [OF i f2, of "[TimerFires 5000 1, FrameLoads 0 6000, TimerFires 7000 2]" 0 0]
      n v h e1 e2
    by simp
qed


section \<open>Late markup at start-up\<close>

text \<open>
  Claim C9 says that, when the readiness checks fail because markup is missing, a
  mutation observer watches the document for up to ten seconds and, once the modal and
  a thumbnail or tile appear, disconnects and triggers activation once. The script
  declares that observer (\<open>observeDOMForLightbox\<close>, lines 48-60, inside \<open>initLightbox\<close>),
  but nothing calls it. On a page whose modal and tiles are inserted six seconds after
  loading, start-up runs as follows: the ten attempts of \<open>tryInitLightbox\<close> are used up
  at 4500 ms, an error is logged, no timer is left, no observer was ever connected and
  no controller constructed; the insertion at 6000 ms then meets nobody.
\<close>

theorem no_observer_is_started:
  "boot_timers (run_boot 50 late_markup (tryInitLightbox (late_markup 0) 0 boot0)) = []
   \<and> observers (run_boot 50 late_markup (tryInitLightbox (late_markup 0) 0 boot0)) = []
   \<and> instances (run_boot 50 late_markup (tryInitLightbox (late_markup 0) 0 boot0)) = 0
   \<and> initAttempts (run_boot 50 late_markup (tryInitLightbox (late_markup 0) 0 boot0)) = 10
   \<and> console_errors (run_boot 50 late_markup (tryInitLightbox (late_markup 0) 0 boot0)) =
       [''Failed to initialize lightbox. Check HTML structure.'']
   \<and> document_mutated (late_markup 6000) 6000
        (run_boot 50 late_markup (tryInitLightbox (late_markup 0) 0 boot0)) =
       run_boot 50 late_markup (tryInitLightbox (late_markup 0) 0 boot0)"
  by code_simp

section \<open>Scroll position across a cycle\<close>

text \<open>
  Claim C4 says that closing the modal restores the scroll position captured when it was
  opened, on both lock paths. On the native path the position is written into the style
  \<open>top\<close> as \<open>`-${savedScrollY}px`\<close> and read back with
  \<open>Math.abs(parseInt(topStr, 10))\<close> (line 776), which drops the fraction of a position
  that is not a whole number of pixels: opened at offset 100.5, the page is at offset 100
  after closing, although \<open>savedScrollY\<close> still holds 100.5.
\<close>

theorem native_unlock_truncates:
  "savedScrollY (opened (201 / 2) desktop_nav) = 201 / 2
   \<and> html_top (page (opened (201 / 2) desktop_nav)) = ''-100.5px''
   \<and> scrollY (page (closeLightbox Resolves 2000 (opened (201 / 2) desktop_nav))) = 100"
  by code_simp

text \<open>
  The loss is confined to the fraction. On the native path a position that is a whole
  number of pixels comes back as it was, and on the plugin path the plugin is sent back
  to the offset it reported (it has to offer \<open>scrollTop\<close> and must not throw).
\<close>

lemma native_roundtrip_whole:
  assumes "scrollSmoother (page s) = None" and "\<not> detect_throws (page s)"
    and "\<not> (hadSmoother s \<and> smoother s)" and "scrollY (page s) = of_nat n"
  shows "scrollY (page (closeLightbox dout now' (openLightbox d ctor out now s))) = of_nat n"
proof -
  let ?o = "openLightbox d ctor out now s"
  have lock: "scroll_lock (s\<lparr>videoTitle := vt, lightboxOpenedAt := now, lightbox_active := True\<rparr>)
              = native_lock (s\<lparr>videoTitle := vt, lightboxOpenedAt := now, lightbox_active := True\<rparr>)" for vt
    using assms(1,2) by (simp add: scroll_lock_def)
  have top: "html_top (page ?o) = ''-'' @ js_toString (of_nat n) @ ''px''"
    using assms(4)
    by (simp add: openLightbox_def Let_def loadVideo_scroll_fields lock native_lock_def pageYOffset_def)
  have flags: "\<not> (hadSmoother ?o \<and> smoother ?o)"
    using assms(3)
    by (simp add: openLightbox_def Let_def loadVideo_scroll_fields lock native_lock_def)
  let ?c = "?o\<lparr>lightbox_active := False\<rparr>"
  have f: "(hadSmoother ?c \<and> smoother ?c) = False"
    using flags by simp
  have "scrollY (page (scroll_unlock ?c)) = of_nat n"
    unfolding scroll_unlock_def f
    by (simp add: Let_def window_scrollTo_def Math_abs_def top parseInt_top_whole)
  then show ?thesis
    by (simp add: closeLightbox_page)
qed

lemma plugin_roundtrip:
  assumes "scrollSmoother (page s) = Some sm" and "\<not> detect_throws (page s)"
    and "\<not> sm_throws sm" and "sm_scrollTop_fn sm"
  shows "map_option sm_position
           (scrollSmoother (page (closeLightbox dout now' (openLightbox d ctor out now s))))
         = Some (sm_position sm)"
  using assms
  by (simp add: closeLightbox_page openLightbox_def Let_def loadVideo_scroll_fields
        scroll_lock_def scroll_unlock_def)

end
